theory Spec2Isabelle
  imports Main
begin

section \<open>Numbers and arrays of the TypeScript layer\<close>

text \<open>
  The counters of \<^verbatim>\<open>EchoAPI\<close> are JavaScript numbers that are only ever initialised to
  integers and changed by \<^verbatim>\<open>++\<close> and \<^verbatim>\<open>+=\<close>; they are modelled as mathematical
  integers (exact for every value below \<open>2^53\<close>). Band and score arguments are taken to
  be integers as well. A counter array is a JavaScript array: a read at a key that holds
  nothing gives \<^verbatim>\<open>undefined\<close>, and \<^verbatim>\<open>arr[i]++\<close> at such a key stores \<^verbatim>\<open>NaN\<close>
  there (the five numbered slots are untouched). An array is therefore a partial map from
  integer keys to slot values, and a slot value is a number or \<^verbatim>\<open>NaN\<close>.
\<close>

datatype jsnum = Num int | NaN

type_synonym jsarray = "int \<rightharpoonup> jsnum"

definition postIncrement :: "jsarray \<Rightarrow> int \<Rightarrow> jsarray" where
  \<comment> \<open>\<^verbatim>\<open>arr[i]++\<close>\<close>
  "postIncrement arr i =
     arr(i \<mapsto> (case arr i of Some (Num n) \<Rightarrow> Num (n + 1) | Some NaN \<Rightarrow> NaN | None \<Rightarrow> NaN))"

definition zeros5 :: jsarray where
  \<comment> \<open>\<^verbatim>\<open>[0, 0, 0, 0, 0]\<close>\<close>
  "zeros5 = [0 \<mapsto> Num 0, 1 \<mapsto> Num 0, 2 \<mapsto> Num 0, 3 \<mapsto> Num 0, 4 \<mapsto> Num 0]"

datatype error =
    Unauthorized | ProofInvalid | AlreadyClaimed | DoubleReview | AlreadyRevoked
  | CapacityExceeded | StaleRoot | NotFound
  | RangeError | TypeError

definition toBigInt :: "jsnum option \<Rightarrow> error + int" where
  \<comment> \<open>\<^verbatim>\<open>BigInt(arr[i])\<close>: \<^verbatim>\<open>undefined\<close> raises a TypeError, \<^verbatim>\<open>NaN\<close> a RangeError\<close>
  "toBigInt v = (case v of None \<Rightarrow> Inl TypeError | Some NaN \<Rightarrow> Inl RangeError | Some (Num n) \<Rightarrow> Inr n)"


section \<open>The three ledgers\<close>

text \<open>
  The Compact contracts (\<^verbatim>\<open>contracts/organization.compact\<close>, \<^verbatim>\<open>salary.compact\<close>,
  \<^verbatim>\<open>review.compact\<close>) that \<^verbatim>\<open>EchoAPI\<close> calls through \<^verbatim>\<open>callTx\<close> once a deployment is
  connected are not part of the TypeScript sources. Their state and transitions are
  modelled from sections 3, 4 and 7 of the specification. Digests are symbolic (two digests are equal
  exactly when they are built from the same inputs), the proof system is the black box of
  the specification: each transition receives whether the caller's proof was accepted.
  Historic roots and \<open>StaleRoot\<close> are not modelled: membership is checked against the
  current leaves.
\<close>

datatype digest =
    \<comment> \<open>Modelled from the spec: the commitments and nullifiers of section 3, with their
        inputs; \<open>Bytes\<close> is any other 32-byte value, given by its hexadecimal string\<close>
    Bytes string
  | PaymentCommitment digest int nat nat
  | ReviewTokenCommitment nat nat nat
  | ReceiptNullifier nat digest
  | ReviewNullifier nat nat

datatype OrgStatus = ACTIVE | SUSPENDED | DEACTIVATED

datatype category = Culture | Compensation | Management | WorkLifeBalance | CareerGrowth

record IdentityRegistry =
  \<comment> \<open>Modelled from the spec: the state of the organization contract's ledger (4.1)\<close>
  adminKey_id :: digest
  status_id :: OrgStatus
  employeeTree :: "digest list"
  approverTree :: "digest list"
  auditorTree :: "digest list"
  revokedSet :: "digest set"
  round_id :: nat

record PaymentRegistry =
  \<comment> \<open>Modelled from the spec: the state of the salary contract's ledger (4.2);
      \<open>round_pay\<close> is the field \<^verbatim>\<open>round\<close> that \<^verbatim>\<open>getSalaryState\<close> reads, which no transition of
      the spec changes\<close>
  adminKey_pay :: digest
  paymentTree :: "digest list"
  receiptNullifierSet :: "digest set"
  tokenCommitmentOutbox :: "digest list"
  bandCounter :: "int \<Rightarrow> nat"
  totalProcessed :: nat
  totalAmount :: nat
  currentPeriod_pay :: nat
  disputeCounter :: nat
  round_pay :: nat

record ReviewRegistry =
  \<comment> \<open>Modelled from the spec: the state of the review contract's ledger (4.3);
      \<open>round_rev\<close> is the field \<^verbatim>\<open>round\<close> that \<^verbatim>\<open>getReviewState\<close> reads, which no transition of
      the spec changes\<close>
  adminKey_rev :: digest
  importedTokenTree :: "digest list"
  reviewNullifierSet :: "digest set"
  ratingCounter :: "category \<Rightarrow> int \<Rightarrow> nat"
  totalReviews_rev :: nat
  currentPeriod_rev :: nat
  contentHashes :: "digest list"
  round_rev :: nat

definition employeeCapacity :: nat where
  \<comment> \<open>README: \<^verbatim>\<open>HistoricMerkleTree<16>\<close> for employees\<close>
  "employeeCapacity = 2 ^ 16"

definition onboardMember :: "IdentityRegistry \<Rightarrow> bool \<Rightarrow> digest \<Rightarrow> error + IdentityRegistry" where
  \<comment> \<open>Modelled from the spec: the \<open>onboardMember\<close> transition of the organization contract
      (4.1): the caller proves approver membership or is admin; appends the commitment to
      \<open>employeeTree\<close>; \<open>Unauthorized\<close> if the proof fails, \<open>CapacityExceeded\<close> if the tree
      is full.\<close>
  "onboardMember L proofAccepted commitment =
     (if \<not> proofAccepted then Inl Unauthorized
      else if employeeCapacity \<le> length (employeeTree L) then Inl CapacityExceeded
      else Inr (L\<lparr>employeeTree := employeeTree L @ [commitment]\<rparr>))"

definition offboardMember :: "IdentityRegistry \<Rightarrow> bool \<Rightarrow> digest \<Rightarrow> error + IdentityRegistry" where
  \<comment> \<open>Modelled from the spec: the \<open>offboardMember\<close> transition of the organization contract
      (4.1): approver or admin only; inserts the nullifier into \<open>revokedSet\<close>;
      \<open>AlreadyRevoked\<close> if present; the leaf is not removed.\<close>
  "offboardMember L proofAccepted nullifier =
     (if \<not> proofAccepted then Inl Unauthorized
      else if nullifier \<in> revokedSet L then Inl AlreadyRevoked
      else Inr (L\<lparr>revokedSet := insert nullifier (revokedSet L)\<rparr>))"

definition addApprover :: "IdentityRegistry \<Rightarrow> bool \<Rightarrow> digest \<Rightarrow> error + IdentityRegistry" where
  \<comment> \<open>Modelled from the spec: the \<open>addApprover\<close> transition of the organization contract
      (4.1): admin-authenticated append to \<open>approverTree\<close>.\<close>
  "addApprover L proofAccepted pubkey =
     (if \<not> proofAccepted then Inl Unauthorized
      else Inr (L\<lparr>approverTree := approverTree L @ [pubkey]\<rparr>))"

definition proveMembership :: "IdentityRegistry \<Rightarrow> bool \<Rightarrow> digest \<Rightarrow> digest \<Rightarrow> error + unit" where
  \<comment> \<open>Modelled from the spec: the \<open>proveMembership\<close> transition of the organization contract
      (4.1): no state change; accepts when the leaf is in the tree, the nullifier is absent
      from \<open>revokedSet\<close> and the status is \<open>ACTIVE\<close>.\<close>
  "proveMembership L proofAccepted leaf nullifier =
     (if proofAccepted \<and> leaf \<in> set (employeeTree L) \<and> nullifier \<notin> revokedSet L
         \<and> status_id L = ACTIVE
      then Inr () else Inl ProofInvalid)"

definition processPayment ::
  "PaymentRegistry \<Rightarrow> bool \<Rightarrow> digest \<Rightarrow> int \<Rightarrow> nat \<Rightarrow> error + PaymentRegistry" where
  \<comment> \<open>Modelled from the spec: the \<open>processPayment\<close> transition of the salary contract (4.2):
      admin or approver authenticated; derives a payment commitment from the payee
      identity, the band, the period and fresh randomness and appends it to
      \<open>paymentTree\<close>; increments the counter for the band and \<open>totalProcessed\<close>. There are
      counters for the bands 1 to 5 only; the spec is silent about any other band, which
      is taken to be rejected.\<close>
  "processPayment L proofAccepted payee band rnd =
     (if \<not> proofAccepted then Inl Unauthorized
      else if band < 1 \<or> 5 < band then Inl ProofInvalid
      else Inr (L\<lparr>paymentTree :=
                     paymentTree L @ [PaymentCommitment payee band (currentPeriod_pay L) rnd],
                   bandCounter := (bandCounter L)(band := bandCounter L band + 1),
                   totalProcessed := totalProcessed L + 1\<rparr>))"

definition confirmReceipt ::
  "PaymentRegistry \<Rightarrow> bool \<Rightarrow> nat \<Rightarrow> digest \<Rightarrow> nat \<Rightarrow> error + PaymentRegistry" where
  \<comment> \<open>Modelled from the spec: the \<open>confirmReceipt\<close> transition of the salary contract (4.2):
      the payee opens a leaf of \<open>paymentTree\<close> with its secret; the receipt nullifier is
      the digest of the payee secret and the commitment; \<open>AlreadyClaimed\<close> if it is in
      \<open>receiptNullifierSet\<close>, else it is inserted and a review-token commitment with fresh
      randomness is placed in \<open>tokenCommitmentOutbox\<close>.\<close>
  "confirmReceipt L proofAccepted secret leaf rnd =
     (if \<not> (proofAccepted \<and> leaf \<in> set (paymentTree L)) then Inl ProofInvalid
      else if ReceiptNullifier secret leaf \<in> receiptNullifierSet L then Inl AlreadyClaimed
      else Inr (L\<lparr>receiptNullifierSet :=
                     insert (ReceiptNullifier secret leaf) (receiptNullifierSet L),
                   tokenCommitmentOutbox :=
                     tokenCommitmentOutbox L
                       @ [ReviewTokenCommitment secret (currentPeriod_pay L) rnd]\<rparr>))"

definition proveRange :: "PaymentRegistry \<Rightarrow> bool \<Rightarrow> digest \<Rightarrow> int \<Rightarrow> int \<Rightarrow> error + unit" where
  \<comment> \<open>Modelled from the spec: the \<open>proveRange\<close> transition of the salary contract (4.2):
      stateless; the committed band lies within the caller's bounds, else \<open>ProofInvalid\<close>.\<close>
  "proveRange L proofAccepted leaf lower upper =
     (case leaf of
        PaymentCommitment payee band period rnd \<Rightarrow>
          (if proofAccepted \<and> leaf \<in> set (paymentTree L) \<and> lower \<le> band \<and> band \<le> upper
           then Inr () else Inl ProofInvalid)
      | _ \<Rightarrow> Inl ProofInvalid)"

definition advancePeriod_pay :: "PaymentRegistry \<Rightarrow> bool \<Rightarrow> error + PaymentRegistry" where
  \<comment> \<open>Modelled from the spec: the \<open>advancePeriod\<close> transition of the salary contract (4.2):
      admin-only; increments \<open>currentPeriod\<close>; does not reset counters.\<close>
  "advancePeriod_pay L proofAccepted =
     (if \<not> proofAccepted then Inl Unauthorized
      else Inr (L\<lparr>currentPeriod_pay := currentPeriod_pay L + 1\<rparr>))"

definition importToken :: "ReviewRegistry \<Rightarrow> bool \<Rightarrow> digest \<Rightarrow> error + ReviewRegistry" where
  \<comment> \<open>Modelled from the spec: the \<open>importToken\<close> transition of the review contract (4.3,
      \<^verbatim>\<open>syncReviewToken\<close> in the README): admin-signed relay; appends the token commitment
      to \<open>importedTokenTree\<close>.\<close>
  "importToken L proofAccepted token =
     (if \<not> proofAccepted then Inl Unauthorized
      else Inr (L\<lparr>importedTokenTree := importedTokenTree L @ [token]\<rparr>))"

definition scoresInRange :: "(category \<Rightarrow> int) \<Rightarrow> bool" where
  "scoresInRange score =
     (1 \<le> score Culture \<and> score Culture \<le> 5
      \<and> 1 \<le> score Compensation \<and> score Compensation \<le> 5
      \<and> 1 \<le> score Management \<and> score Management \<le> 5
      \<and> 1 \<le> score WorkLifeBalance \<and> score WorkLifeBalance \<le> 5
      \<and> 1 \<le> score CareerGrowth \<and> score CareerGrowth \<le> 5)"

definition bumpRating :: "(category \<Rightarrow> int \<Rightarrow> nat) \<Rightarrow> (category \<Rightarrow> int) \<Rightarrow> category \<Rightarrow> int \<Rightarrow> nat" where
  "bumpRating counters score c k = (if k = score c then counters c k + 1 else counters c k)"

definition submitReview_rev ::
  "ReviewRegistry \<Rightarrow> bool \<Rightarrow> nat \<Rightarrow> digest \<Rightarrow> digest \<Rightarrow> (category \<Rightarrow> int) \<Rightarrow> error + ReviewRegistry" where
  \<comment> \<open>Modelled from the spec: the \<open>submitReview\<close> transition of the review contract (4.3):
      the caller proves membership of a token leaf in \<open>importedTokenTree\<close> and knowledge
      of its secret; the review nullifier is the digest of the token secret and
      \<open>currentPeriod\<close>; \<open>DoubleReview\<close> if it exists, else it is inserted; for each
      category the counter matching the 1 to 5 score is incremented, and \<open>totalReviews\<close>;
      the content hash is stored verbatim. There are counters for the scores 1 to 5 only;
      the spec is silent about any other score, which is taken to be rejected.\<close>
  "submitReview_rev L proofAccepted secret leaf contentHash score =
     (if \<not> (proofAccepted \<and> leaf \<in> set (importedTokenTree L)) then Inl ProofInvalid
      else if ReviewNullifier secret (currentPeriod_rev L) \<in> reviewNullifierSet L
        then Inl DoubleReview
      else if \<not> scoresInRange score then Inl ProofInvalid
      else Inr (L\<lparr>reviewNullifierSet :=
                     insert (ReviewNullifier secret (currentPeriod_rev L)) (reviewNullifierSet L),
                   ratingCounter := bumpRating (ratingCounter L) score,
                   totalReviews_rev := totalReviews_rev L + 1,
                   contentHashes := contentHashes L @ [contentHash]\<rparr>))"

definition advanceReviewPeriod :: "ReviewRegistry \<Rightarrow> bool \<Rightarrow> error + ReviewRegistry" where
  \<comment> \<open>Modelled from the spec: the \<open>advanceReviewPeriod\<close> transition of the review contract
      (4.3): admin-only; increments \<open>currentPeriod\<close>, which re-scopes future review
      nullifiers.\<close>
  "advanceReviewPeriod L proofAccepted =
     (if \<not> proofAccepted then Inl Unauthorized
      else Inr (L\<lparr>currentPeriod_rev := currentPeriod_rev L + 1\<rparr>))"

record chain =
  identity :: IdentityRegistry
  payment :: PaymentRegistry
  review :: ReviewRegistry

definition initialChain :: "digest \<Rightarrow> chain" where
  \<comment> \<open>Modelled from the spec: the three ledgers right after deployment, with empty trees
      and sets and all counters zero; the periods start at 1 as the local defaults do\<close>
  "initialChain admin =
     \<lparr>identity = \<lparr>adminKey_id = admin, status_id = ACTIVE, employeeTree = [],
                   approverTree = [], auditorTree = [], revokedSet = {}, round_id = 0\<rparr>,
      payment = \<lparr>adminKey_pay = admin, paymentTree = [], receiptNullifierSet = {},
                  tokenCommitmentOutbox = [], bandCounter = (\<lambda>_. 0), totalProcessed = 0,
                  totalAmount = 0, currentPeriod_pay = 1, disputeCounter = 0, round_pay = 0\<rparr>,
      review = \<lparr>adminKey_rev = admin, importedTokenTree = [], reviewNullifierSet = {},
                 ratingCounter = (\<lambda>_ _. 0), totalReviews_rev = 0, currentPeriod_rev = 1,
                 contentHashes = [], round_rev = 0\<rparr>\<rparr>"


section \<open>The state of \<^verbatim>\<open>EchoAPI\<close>\<close>

text \<open>
  The class \<^verbatim>\<open>EchoAPI\<close> of \<^verbatim>\<open>src/dapp/providers.ts\<close>. The field \<open>deployment\<close> is
  \<open>None\<close> for \<^verbatim>\<open>null\<close> (local simulation); for a connected deployment it carries the
  public state of the three deployed contracts, which the source reaches through the
  contract handles and the indexer. Wallet, providers and configuration are left out.
  Names lose their leading underscore. The transaction id that every method returns is
  built from the wall clock and is not modelled, nor is the copy of the local state
  written to \<^verbatim>\<open>localStorage\<close>.
\<close>

record LocalOrgState =
  employeeCount :: int
  hrOperatorCount :: int
  auditorCount :: int
  round_org :: int
  status :: string
  employees :: "string list"
  hrOperators :: "string list"

record LocalSalaryState =
  totalPaymentsProcessed :: int
  totalPayrollAmount :: int
  currentPeriod :: int
  activeDisputes :: int
  bands :: jsarray
  round_salary :: int

record RatingCounters =
  cultureCounters :: jsarray
  compensationCounters :: jsarray
  managementCounters :: jsarray
  workLifeBalanceCounters :: jsarray
  careerGrowthCounters :: jsarray

record LocalReviewState =
  totalReviews :: int
  currentReviewPeriod :: int
  round_review :: int
  ratingCounters :: RatingCounters

record ReviewRatings =
  culture :: int
  compensation :: int
  management :: int
  workLifeBalance :: int
  careerGrowth :: int

record PublishedReview =
  \<comment> \<open>\<^verbatim>\<open>id\<close> and \<^verbatim>\<open>date\<close> come from the wall clock and are left out; \<open>anonId\<close> is the
      number in \<^verbatim>\<open>Anonymous Employee #n\<close>\<close>
  anonId :: int
  reviewPeriod :: int
  ratings :: ReviewRatings
  content :: string
  verified :: bool

record PeriodTrend =
  \<comment> \<open>\<^verbatim>\<open>avgRating\<close>, a floating-point average, is left out\<close>
  period :: int
  payments :: int
  reviews :: int

record EchoAPI =
  deployment :: "chain option"
  publishedReviews :: "PublishedReview list"
  nextAnonId :: int
  periodTrends :: "PeriodTrend list"
  localOrg :: LocalOrgState
  localSalary :: LocalSalaryState
  localReview :: LocalReviewState

definition makeDefaultLocalOrg :: LocalOrgState where
  "makeDefaultLocalOrg =
     \<lparr>employeeCount = 0, hrOperatorCount = 0, auditorCount = 0, round_org = 0,
      status = ''ACTIVE'', employees = [], hrOperators = []\<rparr>"

definition makeDefaultLocalSalary :: LocalSalaryState where
  "makeDefaultLocalSalary =
     \<lparr>totalPaymentsProcessed = 0, totalPayrollAmount = 0, currentPeriod = 1,
      activeDisputes = 0, bands = zeros5, round_salary = 0\<rparr>"

definition makeDefaultLocalReview :: LocalReviewState where
  "makeDefaultLocalReview =
     \<lparr>totalReviews = 0, currentReviewPeriod = 1, round_review = 0,
      ratingCounters =
        \<lparr>cultureCounters = zeros5, compensationCounters = zeros5,
         managementCounters = zeros5, workLifeBalanceCounters = zeros5,
         careerGrowthCounters = zeros5\<rparr>\<rparr>"

definition newEchoAPI :: EchoAPI where
  \<comment> \<open>the constructor when no persisted state is found\<close>
  "newEchoAPI =
     \<lparr>deployment = None, publishedReviews = [], nextAnonId = 1, periodTrends = [],
      localOrg = makeDefaultLocalOrg, localSalary = makeDefaultLocalSalary,
      localReview = makeDefaultLocalReview\<rparr>"

definition deployedEchoAPI :: "digest \<Rightarrow> EchoAPI" where
  \<comment> \<open>the same object once freshly deployed contracts are connected\<close>
  "deployedEchoAPI admin = newEchoAPI\<lparr>deployment := Some (initialChain admin)\<rparr>"

text \<open>
  The private inputs of a circuit call. The source passes none of them as arguments: the
  witness functions of \<^verbatim>\<open>src/contract/witnesses.ts\<close> read them from the caller's private
  state while the proof is built. \<open>roleProof\<close> and \<open>ownerProof\<close> say whether the proof
  system accepts the caller's role proof (admin, approver) and the caller's proof of
  knowledge for the leaf it opens.
\<close>

record witness =
  roleProof :: bool
  ownerProof :: bool
  secret :: nat
  leaf :: digest
  nullifier :: digest
  randomness :: nat


section \<open>The operations of \<^verbatim>\<open>EchoAPI\<close>\<close>

text \<open>
  Every method returns the object's new state together with its outcome: \<open>Inr\<close> the
  returned value, \<open>Inl\<close> the error it throws. \<^verbatim>\<open>await contract.callTx.f(...)\<close> runs the
  transition \<open>f\<close> on the contract's ledger: a rejected transition throws and leaves the
  ledger as it was, an accepted one replaces the ledger's state. A hexadecimal string
  handed to a circuit (\<^verbatim>\<open>hexToBytes\<close>) is the digest \<open>Bytes s\<close>; \<^verbatim>\<open>Number(amount)\<close> and
  \<^verbatim>\<open>BigInt(n)\<close> of an integer are the integer itself.
\<close>

definition callTx_org :: "EchoAPI \<Rightarrow> chain \<Rightarrow> error + IdentityRegistry \<Rightarrow> EchoAPI \<times> (error + unit)" where
  "callTx_org api c r =
     (case r of Inl e \<Rightarrow> (api, Inl e)
      | Inr L \<Rightarrow> (api\<lparr>deployment := Some (c\<lparr>identity := L\<rparr>)\<rparr>, Inr ()))"

definition callTx_salary :: "EchoAPI \<Rightarrow> chain \<Rightarrow> error + PaymentRegistry \<Rightarrow> EchoAPI \<times> (error + unit)" where
  "callTx_salary api c r =
     (case r of Inl e \<Rightarrow> (api, Inl e)
      | Inr L \<Rightarrow> (api\<lparr>deployment := Some (c\<lparr>payment := L\<rparr>)\<rparr>, Inr ()))"

definition addHrOperator :: "witness \<Rightarrow> string \<Rightarrow> EchoAPI \<Rightarrow> EchoAPI \<times> (error + unit)" where
  "addHrOperator w hrPublicKey api =
     (case deployment api of
        None \<Rightarrow>
          (api\<lparr>localOrg := (localOrg api)
             \<lparr>hrOperators := hrOperators (localOrg api) @ [hrPublicKey],
              hrOperatorCount := hrOperatorCount (localOrg api) + 1,
              round_org := round_org (localOrg api) + 1\<rparr>\<rparr>, Inr ())
      | Some c \<Rightarrow> callTx_org api c (addApprover (identity c) (roleProof w) (Bytes hrPublicKey)))"

definition onboardEmployee :: "witness \<Rightarrow> string \<Rightarrow> EchoAPI \<Rightarrow> EchoAPI \<times> (error + unit)" where
  "onboardEmployee w employeeCommitment api =
     (case deployment api of
        None \<Rightarrow>
          (api\<lparr>localOrg := (localOrg api)
             \<lparr>employees := employees (localOrg api) @ [employeeCommitment],
              employeeCount := employeeCount (localOrg api) + 1,
              round_org := round_org (localOrg api) + 1\<rparr>\<rparr>, Inr ())
      | Some c \<Rightarrow>
          callTx_org api c (onboardMember (identity c) (roleProof w) (Bytes employeeCommitment)))"

definition offboardEmployee :: "witness \<Rightarrow> string \<Rightarrow> EchoAPI \<Rightarrow> EchoAPI \<times> (error + unit)" where
  "offboardEmployee w employeeNullifier api =
     (case deployment api of
        None \<Rightarrow>
          (api\<lparr>localOrg := (localOrg api)
             \<lparr>employeeCount :=
                (if employeeCount (localOrg api) > 0 then employeeCount (localOrg api) - 1
                 else employeeCount (localOrg api)),
              round_org := round_org (localOrg api) + 1\<rparr>\<rparr>, Inr ())
      | Some c \<Rightarrow>
          callTx_org api c (offboardMember (identity c) (roleProof w) (Bytes employeeNullifier)))"

definition proveEmployment :: "witness \<Rightarrow> EchoAPI \<Rightarrow> EchoAPI \<times> (error + bool)" where
  "proveEmployment w api =
     (case deployment api of
        None \<Rightarrow> (api, Inr True)
      | Some c \<Rightarrow>
          (case proveMembership (identity c) (ownerProof w) (leaf w) (nullifier w) of
             Inl e \<Rightarrow> (api, Inl e)
           | Inr _ \<Rightarrow> (api, Inr True)))"

definition processSalaryPayment ::
  "witness \<Rightarrow> string \<Rightarrow> int \<Rightarrow> int \<Rightarrow> int \<Rightarrow> EchoAPI \<Rightarrow> EchoAPI \<times> (error + unit)" where
  "processSalaryPayment w employeePublicKey amount payPeriod salaryBand api =
     (case deployment api of
        None \<Rightarrow>
          (let s = localSalary api;
               bandIdx = max 0 (min 4 (salaryBand - 1))
           in (api\<lparr>localSalary := s
                 \<lparr>totalPaymentsProcessed := totalPaymentsProcessed s + 1,
                  totalPayrollAmount := totalPayrollAmount s + amount,
                  bands := postIncrement (bands s) bandIdx,
                  round_salary := round_salary s + 1\<rparr>\<rparr>, Inr ()))
      | Some c \<Rightarrow>
          callTx_salary api c
            (processPayment (payment c) (roleProof w) (Bytes employeePublicKey) salaryBand
               (randomness w)))"

definition confirmSalaryReceipt :: "witness \<Rightarrow> EchoAPI \<Rightarrow> EchoAPI \<times> (error + bool)" where
  \<comment> \<open>the value returned is \<^verbatim>\<open>reviewTokenIssued\<close>\<close>
  "confirmSalaryReceipt w api =
     (case deployment api of
        None \<Rightarrow> (api, Inr True)
      | Some c \<Rightarrow>
          (case confirmReceipt (payment c) (ownerProof w) (secret w) (leaf w) (randomness w) of
             Inl e \<Rightarrow> (api, Inl e)
           | Inr L \<Rightarrow> (api\<lparr>deployment := Some (c\<lparr>payment := L\<rparr>)\<rparr>, Inr True)))"

definition proveSalaryRange :: "witness \<Rightarrow> int \<Rightarrow> int \<Rightarrow> EchoAPI \<Rightarrow> EchoAPI \<times> (error + bool)" where
  "proveSalaryRange w lowerBound upperBound api =
     (case deployment api of
        None \<Rightarrow> (api, Inr True)
      | Some c \<Rightarrow>
          (case proveRange (payment c) (ownerProof w) (leaf w) lowerBound upperBound of
             Inl e \<Rightarrow> (api, Inl e)
           | Inr _ \<Rightarrow> (api, Inr True)))"

fun upsertTrend :: "PeriodTrend \<Rightarrow> PeriodTrend list \<Rightarrow> PeriodTrend list" where
  \<comment> \<open>replace the first entry of the same period (\<^verbatim>\<open>findIndex\<close>), else \<^verbatim>\<open>push\<close>\<close>
  "upsertTrend e [] = [e]"
| "upsertTrend e (t # ts) = (if period t = period e then e # ts else t # upsertTrend e ts)"

definition advancePeriod :: "witness \<Rightarrow> EchoAPI \<Rightarrow> EchoAPI \<times> (error + unit)" where
  \<comment> \<open>with a deployment the trend snapshot is taken before the transaction is sent and
      stays when the transaction is rejected\<close>
  "advancePeriod w api =
     (case deployment api of
        None \<Rightarrow>
          (let s = localSalary api; r = localReview api;
               trendEntry = \<lparr>period = currentPeriod s, payments = totalPaymentsProcessed s,
                             reviews = totalReviews r\<rparr>
           in (api\<lparr>periodTrends := upsertTrend trendEntry (periodTrends api),
                   localSalary := s\<lparr>currentPeriod := currentPeriod s + 1,
                                     round_salary := round_salary s + 1\<rparr>\<rparr>, Inr ()))
      | Some c \<Rightarrow>
          (let trendEntry = \<lparr>period = int (currentPeriod_pay (payment c)),
                             payments = int (totalProcessed (payment c)),
                             reviews = int (totalReviews_rev (review c))\<rparr>;
               api1 = api\<lparr>periodTrends := upsertTrend trendEntry (periodTrends api)\<rparr>
           in callTx_salary api1 c (advancePeriod_pay (payment c) (roleProof w))))"

definition scoreOf :: "ReviewRatings \<Rightarrow> category \<Rightarrow> int" where
  "scoreOf r c =
     (case c of Culture \<Rightarrow> culture r | Compensation \<Rightarrow> compensation r
      | Management \<Rightarrow> management r | WorkLifeBalance \<Rightarrow> workLifeBalance r
      | CareerGrowth \<Rightarrow> careerGrowth r)"

definition countersOf :: "RatingCounters \<Rightarrow> category \<Rightarrow> jsarray" where
  "countersOf rc c =
     (case c of Culture \<Rightarrow> cultureCounters rc | Compensation \<Rightarrow> compensationCounters rc
      | Management \<Rightarrow> managementCounters rc | WorkLifeBalance \<Rightarrow> workLifeBalanceCounters rc
      | CareerGrowth \<Rightarrow> careerGrowthCounters rc)"

definition submitReview ::
  "witness \<Rightarrow> ReviewRatings \<Rightarrow> string \<Rightarrow> string \<Rightarrow> EchoAPI \<Rightarrow> EchoAPI \<times> (error + unit)" where
  "submitReview w rs reviewText contentHash api =
     (case deployment api of
        None \<Rightarrow>
          (let r = localReview api; rc = ratingCounters r;
               rc1 = rc\<lparr>cultureCounters := postIncrement (cultureCounters rc) (culture rs - 1),
                        compensationCounters :=
                          postIncrement (compensationCounters rc) (compensation rs - 1),
                        managementCounters :=
                          postIncrement (managementCounters rc) (management rs - 1),
                        workLifeBalanceCounters :=
                          postIncrement (workLifeBalanceCounters rc) (workLifeBalance rs - 1),
                        careerGrowthCounters :=
                          postIncrement (careerGrowthCounters rc) (careerGrowth rs - 1)\<rparr>;
               r1 = r\<lparr>ratingCounters := rc1, totalReviews := totalReviews r + 1,
                      round_review := round_review r + 1\<rparr>;
               published = \<lparr>anonId = nextAnonId api, reviewPeriod = currentReviewPeriod r1,
                            ratings = rs, content = reviewText, verified = True\<rparr>
           in (api\<lparr>localReview := r1, nextAnonId := nextAnonId api + 1,
                   publishedReviews := published # publishedReviews api\<rparr>, Inr ()))
      | Some c \<Rightarrow>
          (case submitReview_rev (review c) (ownerProof w) (secret w) (leaf w)
                  (Bytes contentHash) (scoreOf rs) of
             Inl e \<Rightarrow> (api, Inl e)
           | Inr L \<Rightarrow>
               (let published = \<lparr>anonId = nextAnonId api,
                                 reviewPeriod = int (currentPeriod_rev L),
                                 ratings = rs, content = reviewText, verified = True\<rparr>
                in (api\<lparr>deployment := Some (c\<lparr>review := L\<rparr>),
                        nextAnonId := nextAnonId api + 1,
                        publishedReviews := published # publishedReviews api\<rparr>, Inr ()))))"


subsection \<open>State queries\<close>

record SalaryBands =
  band1 :: int
  band2 :: int
  band3 :: int
  band4 :: int
  band5 :: int

record SalaryLedgerState =
  orgAdmin_pub :: digest
  totalPaymentsProcessed_pub :: int
  totalPayrollAmount_pub :: int
  currentPeriod_pub :: int
  activeDisputes_pub :: int
  salaryBands :: SalaryBands
  round_pub :: int

record RatingDistribution =
  rating1 :: int
  rating2 :: int
  rating3 :: int
  rating4 :: int
  rating5 :: int

record RatingAggregates =
  culture_agg :: RatingDistribution
  compensation_agg :: RatingDistribution
  management_agg :: RatingDistribution
  workLifeBalance_agg :: RatingDistribution
  careerGrowth_agg :: RatingDistribution

record ReviewLedgerState =
  orgAdmin_rpub :: digest
  totalReviews_pub :: int
  currentReviewPeriod_pub :: int
  round_rpub :: int
  ratingAggregates :: RatingAggregates

definition firstFive :: "jsarray \<Rightarrow> error + int \<times> int \<times> int \<times> int \<times> int" where
  \<comment> \<open>\<^verbatim>\<open>BigInt(arr[0])\<close>, ..., \<^verbatim>\<open>BigInt(arr[4])\<close> in this order; the first failure is thrown\<close>
  "firstFive arr =
     (case toBigInt (arr 0) of Inl e \<Rightarrow> Inl e | Inr a \<Rightarrow>
      (case toBigInt (arr 1) of Inl e \<Rightarrow> Inl e | Inr b \<Rightarrow>
       (case toBigInt (arr 2) of Inl e \<Rightarrow> Inl e | Inr c \<Rightarrow>
        (case toBigInt (arr 3) of Inl e \<Rightarrow> Inl e | Inr d \<Rightarrow>
         (case toBigInt (arr 4) of Inl e \<Rightarrow> Inl e | Inr f \<Rightarrow> Inr (a, b, c, d, f))))))"

definition zeroHex :: digest where
  \<comment> \<open>\<^verbatim>\<open>"0".repeat(64)\<close>\<close>
  "zeroHex = Bytes (replicate 64 CHR ''0'')"

definition getSalaryState :: "EchoAPI \<Rightarrow> error + SalaryLedgerState" where
  "getSalaryState api =
     (case deployment api of
        None \<Rightarrow>
          (let s = localSalary api in
           case firstFive (bands s) of
             Inl e \<Rightarrow> Inl e
           | Inr (a, b, c, d, f) \<Rightarrow>
               Inr \<lparr>orgAdmin_pub = zeroHex,
                    totalPaymentsProcessed_pub = totalPaymentsProcessed s,
                    totalPayrollAmount_pub = totalPayrollAmount s,
                    currentPeriod_pub = currentPeriod s,
                    activeDisputes_pub = activeDisputes s,
                    salaryBands = \<lparr>band1 = a, band2 = b, band3 = c, band4 = d, band5 = f\<rparr>,
                    round_pub = round_salary s\<rparr>)
      | Some c \<Rightarrow>
          (let L = payment c in
           Inr \<lparr>orgAdmin_pub = adminKey_pay L,
                totalPaymentsProcessed_pub = int (totalProcessed L),
                totalPayrollAmount_pub = int (totalAmount L),
                currentPeriod_pub = int (currentPeriod_pay L),
                activeDisputes_pub = int (disputeCounter L),
                salaryBands = \<lparr>band1 = int (bandCounter L 1), band2 = int (bandCounter L 2),
                               band3 = int (bandCounter L 3), band4 = int (bandCounter L 4),
                               band5 = int (bandCounter L 5)\<rparr>,
                round_pub = int (round_pay L)\<rparr>))"

definition toRatingDist :: "jsarray \<Rightarrow> error + RatingDistribution" where
  "toRatingDist arr =
     (case firstFive arr of
        Inl e \<Rightarrow> Inl e
      | Inr (a, b, c, d, f) \<Rightarrow>
          Inr \<lparr>rating1 = a, rating2 = b, rating3 = c, rating4 = d, rating5 = f\<rparr>)"

definition ledgerDist :: "(int \<Rightarrow> nat) \<Rightarrow> RatingDistribution" where
  "ledgerDist f =
     \<lparr>rating1 = int (f 1), rating2 = int (f 2), rating3 = int (f 3), rating4 = int (f 4),
      rating5 = int (f 5)\<rparr>"

definition getReviewState :: "EchoAPI \<Rightarrow> error + ReviewLedgerState" where
  "getReviewState api =
     (case deployment api of
        None \<Rightarrow>
          (let r = localReview api; rc = ratingCounters r in
           case toRatingDist (cultureCounters rc) of Inl e \<Rightarrow> Inl e | Inr cu \<Rightarrow>
           (case toRatingDist (compensationCounters rc) of Inl e \<Rightarrow> Inl e | Inr co \<Rightarrow>
            (case toRatingDist (managementCounters rc) of Inl e \<Rightarrow> Inl e | Inr ma \<Rightarrow>
             (case toRatingDist (workLifeBalanceCounters rc) of Inl e \<Rightarrow> Inl e | Inr wo \<Rightarrow>
              (case toRatingDist (careerGrowthCounters rc) of Inl e \<Rightarrow> Inl e | Inr ca \<Rightarrow>
                 Inr \<lparr>orgAdmin_rpub = zeroHex,
                      totalReviews_pub = totalReviews r,
                      currentReviewPeriod_pub = currentReviewPeriod r,
                      round_rpub = round_review r,
                      ratingAggregates =
                        \<lparr>culture_agg = cu, compensation_agg = co, management_agg = ma,
                         workLifeBalance_agg = wo, careerGrowth_agg = ca\<rparr>\<rparr>)))))
      | Some c \<Rightarrow>
          (let L = review c in
           Inr \<lparr>orgAdmin_rpub = adminKey_rev L,
                totalReviews_pub = int (totalReviews_rev L),
                currentReviewPeriod_pub = int (currentPeriod_rev L),
                round_rpub = int (round_rev L),
                ratingAggregates =
                  \<lparr>culture_agg = ledgerDist (ratingCounter L Culture),
                   compensation_agg = ledgerDist (ratingCounter L Compensation),
                   management_agg = ledgerDist (ratingCounter L Management),
                   workLifeBalance_agg = ledgerDist (ratingCounter L WorkLifeBalance),
                   careerGrowth_agg = ledgerDist (ratingCounter L CareerGrowth)\<rparr>\<rparr>))"

definition bandOf :: "SalaryBands \<Rightarrow> int \<Rightarrow> int" where
  \<comment> \<open>the counter of band \<open>k\<close> in a query result\<close>
  "bandOf b k =
     (if k = 1 then band1 b else if k = 2 then band2 b else if k = 3 then band3 b
      else if k = 4 then band4 b else band5 b)"

definition distOf :: "RatingAggregates \<Rightarrow> category \<Rightarrow> RatingDistribution" where
  "distOf a c =
     (case c of Culture \<Rightarrow> culture_agg a | Compensation \<Rightarrow> compensation_agg a
      | Management \<Rightarrow> management_agg a | WorkLifeBalance \<Rightarrow> workLifeBalance_agg a
      | CareerGrowth \<Rightarrow> careerGrowth_agg a)"

definition ratingOf :: "RatingDistribution \<Rightarrow> int \<Rightarrow> int" where
  \<comment> \<open>the counter of score \<open>k\<close> in a query result\<close>
  "ratingOf d k =
     (if k = 1 then rating1 d else if k = 2 then rating2 d else if k = 3 then rating3 d
      else if k = 4 then rating4 d else rating5 d)"

subsection \<open>Transactions, one after another\<close>

definition sendToReview :: "(ReviewRegistry \<Rightarrow> error + ReviewRegistry) \<Rightarrow> EchoAPI \<Rightarrow> EchoAPI" where
  \<comment> \<open>a transaction that reaches the review contract from outside \<^verbatim>\<open>EchoAPI\<close>, which has
      no method for the admin's token relay or for \<open>advanceReviewPeriod\<close>; without a
      deployment there is no contract to send it to\<close>
  "sendToReview f api =
     (case deployment api of
        None \<Rightarrow> api
      | Some c \<Rightarrow>
          (case f (review c) of
             Inl e \<Rightarrow> api
           | Inr L \<Rightarrow> api\<lparr>deployment := Some (c\<lparr>review := L\<rparr>)\<rparr>))"

datatype operation =
    AddHrOperator witness string
  | OnboardEmployee witness string
  | OffboardEmployee witness string
  | ProveEmployment witness
  | ProcessSalaryPayment witness string int int int
  | ConfirmSalaryReceipt witness
  | ProveSalaryRange witness int int
  | AdvancePeriod witness
  | SubmitReview witness ReviewRatings string string
  | SyncReviewToken witness digest
  | AdvanceReviewPeriod witness

fun perform :: "operation \<Rightarrow> EchoAPI \<Rightarrow> EchoAPI" where
  "perform (AddHrOperator w k) api = fst (addHrOperator w k api)"
| "perform (OnboardEmployee w c) api = fst (onboardEmployee w c api)"
| "perform (OffboardEmployee w n) api = fst (offboardEmployee w n api)"
| "perform (ProveEmployment w) api = fst (proveEmployment w api)"
| "perform (ProcessSalaryPayment w k a p b) api = fst (processSalaryPayment w k a p b api)"
| "perform (ConfirmSalaryReceipt w) api = fst (confirmSalaryReceipt w api)"
| "perform (ProveSalaryRange w lo hi) api = fst (proveSalaryRange w lo hi api)"
| "perform (AdvancePeriod w) api = fst (advancePeriod w api)"
| "perform (SubmitReview w rs t h) api = fst (submitReview w rs t h api)"
| "perform (SyncReviewToken w t) api = sendToReview (\<lambda>L. importToken L (roleProof w) t) api"
| "perform (AdvanceReviewPeriod w) api = sendToReview (\<lambda>L. advanceReviewPeriod L (roleProof w)) api"


section \<open>Runs, predicates on states and sample inputs\<close>

subsection \<open>Runs\<close>



fun performAll :: "operation list \<Rightarrow> EchoAPI \<Rightarrow> EchoAPI" where
  "performAll [] api = api"
| "performAll (op # ops) api = performAll ops (perform op api)"

subsection \<open>Predicates on states\<close>

definition bandTotal :: "SalaryLedgerState \<Rightarrow> int" where
  \<comment> \<open>the sum of the five band counters of a query result\<close>
  "bandTotal st =
     band1 (salaryBands st) + band2 (salaryBands st) + band3 (salaryBands st)
       + band4 (salaryBands st) + band5 (salaryBands st)"


definition slotLe :: "jsnum option \<Rightarrow> jsnum option \<Rightarrow> bool" where
  \<comment> \<open>a slot that held a number still holds a number, and not a smaller one\<close>
  "slotLe x y =
     (case x of Some (Num n) \<Rightarrow> (case y of Some (Num m) \<Rightarrow> n \<le> m | _ \<Rightarrow> False) | _ \<Rightarrow> True)"

definition categories :: "category list" where
  "categories = [Culture, Compensation, Management, WorkLifeBalance, CareerGrowth]"

definition countersNotDecreased :: "EchoAPI \<Rightarrow> EchoAPI \<Rightarrow> bool" where
  \<comment> \<open>none of the five band counters and 25 rating counters, local or on the ledgers,
      is smaller in the second state than in the first\<close>
  "countersNotDecreased api api' =
     ((\<forall>i \<in> {0..4}. slotLe (bands (localSalary api) i) (bands (localSalary api') i))
      \<and> (\<forall>c \<in> set categories. \<forall>i \<in> {0..4}.
            slotLe (countersOf (ratingCounters (localReview api)) c i)
                   (countersOf (ratingCounters (localReview api')) c i))
      \<and> (case deployment api of
            None \<Rightarrow> True
          | Some c \<Rightarrow>
              (case deployment api' of
                 None \<Rightarrow> False
               | Some c' \<Rightarrow>
                   (\<forall>k \<in> {1..5}. bandCounter (payment c) k \<le> bandCounter (payment c') k)
                   \<and> (\<forall>cat \<in> set categories. \<forall>k \<in> {1..5}.
                         ratingCounter (review c) cat k \<le> ratingCounter (review c') cat k))))"


definition nullifiersScoped :: "EchoAPI \<Rightarrow> bool" where
  \<comment> \<open>every review nullifier on the ledger is scoped to a period that has begun\<close>
  "nullifiersScoped api =
     (case deployment api of
        None \<Rightarrow> True
      | Some c \<Rightarrow>
          (\<forall>s p. ReviewNullifier s p \<in> reviewNullifierSet (review c)
                   \<longrightarrow> p \<le> currentPeriod_rev (review c)))"

subsection \<open>Sample inputs\<close>

definition adminWitness :: witness where
  "adminWitness =
     \<lparr>roleProof = True, ownerProof = False, secret = 0, leaf = Bytes [], nullifier = Bytes [],
      randomness = 7\<rparr>"

definition employeeWitness :: witness where
  "employeeWitness =
     \<lparr>roleProof = False, ownerProof = True, secret = 42, leaf = ReviewTokenCommitment 42 1 9,
      nullifier = Bytes ''0x01'', randomness = 11\<rparr>"

definition payeeWitness :: witness where
  "payeeWitness =
     \<lparr>roleProof = False, ownerProof = True, secret = 42,
      leaf = PaymentCommitment (Bytes ''e1'') 3 1 7, nullifier = Bytes ''0x01'',
      randomness = 9\<rparr>"


definition sampleRatings :: ReviewRatings where
  "sampleRatings = \<lparr>culture = 5, compensation = 4, management = 3, workLifeBalance = 4,
                    careerGrowth = 5\<rparr>"


definition zeroDist :: RatingDistribution where
  "zeroDist = \<lparr>rating1 = 0, rating2 = 0, rating3 = 0, rating4 = 0, rating5 = 0\<rparr>"


definition sampleOps :: "operation list" where
  "sampleOps =
     [ProcessSalaryPayment adminWitness ''e1'' 2000000 1 3,
      SubmitReview adminWitness sampleRatings ''fine'' ''0xab'',
      AdvancePeriod adminWitness,
      OffboardEmployee adminWitness ''0x01'']"

definition deployedAPI :: EchoAPI where
  "deployedAPI = deployedEchoAPI (Bytes ''ad'')"

definition reviewReadyAPI :: EchoAPI where
  "reviewReadyAPI = perform (SyncReviewToken adminWitness (ReviewTokenCommitment 42 1 9)) deployedAPI"

definition paidLocalAPI :: EchoAPI where
  "paidLocalAPI = perform (ProcessSalaryPayment adminWitness ''e1'' 2000000 1 3) newEchoAPI"

definition paidAPI :: EchoAPI where
  "paidAPI = perform (ProcessSalaryPayment adminWitness ''e1'' 2000000 1 3) deployedAPI"




section \<open>Reading the counter arrays\<close>

lemma firstFive_Inr_iff:
  "firstFive arr = Inr (a, b, c, d, f) \<longleftrightarrow>
     arr 0 = Some (Num a) \<and> arr 1 = Some (Num b) \<and> arr 2 = Some (Num c)
     \<and> arr 3 = Some (Num d) \<and> arr 4 = Some (Num f)"
  by (auto simp: firstFive_def toBigInt_def split: option.splits jsnum.splits sum.splits)

lemma postIncrement_apply:
  "postIncrement arr i j =
     (if j = i then Some (case arr i of Some (Num n) \<Rightarrow> Num (n + 1) | Some NaN \<Rightarrow> NaN | None \<Rightarrow> NaN)
      else arr j)"
  by (simp add: postIncrement_def)

lemma firstFive_postIncrement:
  assumes "firstFive arr = Inr (a, b, c, d, f)" and "0 \<le> i" and "i \<le> 4"
  shows "firstFive (postIncrement arr i) =
           Inr (a + (if i = 0 then 1 else 0), b + (if i = 1 then 1 else 0),
                c + (if i = 2 then 1 else 0), d + (if i = 3 then 1 else 0),
                f + (if i = 4 then 1 else 0))"
proof -
  from assms(2,3) have "i = 0 \<or> i = 1 \<or> i = 2 \<or> i = 3 \<or> i = 4" by arith
  with assms(1) show ?thesis
    by (auto simp: firstFive_Inr_iff postIncrement_apply)
qed

section \<open>Payments\<close>




lemma getSalaryState_new:
  "getSalaryState newEchoAPI =
     Inr \<lparr>orgAdmin_pub = zeroHex, totalPaymentsProcessed_pub = 0, totalPayrollAmount_pub = 0,
          currentPeriod_pub = 1, activeDisputes_pub = 0,
          salaryBands = \<lparr>band1 = 0, band2 = 0, band3 = 0, band4 = 0, band5 = 0\<rparr>,
          round_pub = 0\<rparr>"
  by (simp add: getSalaryState_def newEchoAPI_def makeDefaultLocalSalary_def zeros5_def
      firstFive_def toBigInt_def)




section \<open>Period advance\<close>

lemmas method_defs =
  addHrOperator_def onboardEmployee_def offboardEmployee_def proveEmployment_def
  processSalaryPayment_def confirmSalaryReceipt_def proveSalaryRange_def advancePeriod_def
  submitReview_def sendToReview_def callTx_org_def callTx_salary_def

lemmas ledger_defs =
  onboardMember_def offboardMember_def addApprover_def proveMembership_def processPayment_def
  confirmReceipt_def proveRange_def advancePeriod_pay_def importToken_def submitReview_rev_def
  advanceReviewPeriod_def

text \<open>
  Claim C7. \<^verbatim>\<open>advancePeriod\<close> increments \<open>currentPeriod\<close> by exactly one and leaves every
  band counter, \<open>totalPaymentsProcessed\<close> and \<open>totalPayrollAmount\<close> unchanged: the
  counters are cumulative and a period advance never resets them. In local simulation the
  call always succeeds; with a deployment it holds for every accepted call, and a rejected
  call changes neither the ledger nor the local counters.
\<close>

theorem C7_advancePeriod_frame:
  "(deployment api = None \<longrightarrow>
      (\<exists>api'. advancePeriod w api = (api', Inr ())
         \<and> deployment api' = None
         \<and> currentPeriod (localSalary api') = currentPeriod (localSalary api) + 1
         \<and> bands (localSalary api') = bands (localSalary api)
         \<and> totalPaymentsProcessed (localSalary api') = totalPaymentsProcessed (localSalary api)
         \<and> totalPayrollAmount (localSalary api') = totalPayrollAmount (localSalary api)))
   \<and> (\<forall>c api' u. deployment api = Some c \<and> advancePeriod w api = (api', Inr u) \<longrightarrow>
         (\<exists>c'. deployment api' = Some c'
            \<and> currentPeriod_pay (payment c') = currentPeriod_pay (payment c) + 1
            \<and> bandCounter (payment c') = bandCounter (payment c)
            \<and> totalProcessed (payment c') = totalProcessed (payment c)
            \<and> totalAmount (payment c') = totalAmount (payment c)))
   \<and> (\<forall>api' e. advancePeriod w api = (api', Inl e) \<longrightarrow>
         deployment api' = deployment api \<and> localSalary api' = localSalary api)"
  by (auto simp: advancePeriod_def Let_def callTx_salary_def advancePeriod_pay_def
      split: option.splits sum.splits if_splits)

theorem C7_advancePeriod_frame_witness:
  "(\<exists>api'. advancePeriod adminWitness newEchoAPI = (api', Inr ())
      \<and> currentPeriod (localSalary api') = 2 \<and> bands (localSalary api') = zeros5
      \<and> totalPaymentsProcessed (localSalary api') = 0
      \<and> totalPayrollAmount (localSalary api') = 0)
   \<and> (\<exists>api' c'. advancePeriod adminWitness deployedAPI = (api', Inr ())
      \<and> deployment api' = Some c' \<and> currentPeriod_pay (payment c') = 2
      \<and> bandCounter (payment c') = (\<lambda>_. 0) \<and> totalProcessed (payment c') = 0
      \<and> totalAmount (payment c') = 0)"
proof -
  have l: "deployment newEchoAPI = None" by (simp add: newEchoAPI_def)
  obtain a where a: "advancePeriod adminWitness deployedAPI = (a, Inr ())"
    by (simp add: advancePeriod_def deployedAPI_def deployedEchoAPI_def newEchoAPI_def Let_def
        callTx_salary_def advancePeriod_pay_def adminWitness_def)
  have d: "deployment deployedAPI = Some (initialChain (Bytes ''ad''))"
    by (simp add: deployedAPI_def deployedEchoAPI_def)
  from C7_advancePeriod_frame[of newEchoAPI adminWitness] l
  have 1: "\<exists>api'. advancePeriod adminWitness newEchoAPI = (api', Inr ())
      \<and> currentPeriod (localSalary api') = 2 \<and> bands (localSalary api') = zeros5
      \<and> totalPaymentsProcessed (localSalary api') = 0
      \<and> totalPayrollAmount (localSalary api') = 0"
    by (auto simp: newEchoAPI_def makeDefaultLocalSalary_def)
  from C7_advancePeriod_frame[of deployedAPI adminWitness] a d
  have 2: "\<exists>api' c'. advancePeriod adminWitness deployedAPI = (api', Inr ())
      \<and> deployment api' = Some c' \<and> currentPeriod_pay (payment c') = 2
      \<and> bandCounter (payment c') = (\<lambda>_. 0) \<and> totalProcessed (payment c') = 0
      \<and> totalAmount (payment c') = 0"
    by (auto simp: initialChain_def)
  from 1 2 show ?thesis by blast
qed


section \<open>The band counters in local simulation\<close>

lemma perform_local: "deployment api = None \<Longrightarrow> deployment (perform op api) = None"
  by (cases op) (simp_all add: method_defs Let_def)

lemma local_payment_query:
  assumes "deployment api = None" and "getSalaryState api = Inr st"
  shows "\<exists>api' st'. processSalaryPayment w k a p b api = (api', Inr ())
           \<and> deployment api' = None
           \<and> getSalaryState api' = Inr st'
           \<and> totalPaymentsProcessed_pub st' = totalPaymentsProcessed_pub st + 1
           \<and> (\<forall>j. 1 \<le> j \<and> j \<le> 5 \<longrightarrow>
                  bandOf (salaryBands st') j
                    = bandOf (salaryBands st) j + (if j = max 1 (min 5 b) then 1 else 0))
           \<and> bandTotal st' = bandTotal st + 1"
proof -
  obtain x1 x2 x3 x4 x5 where ff: "firstFive (bands (localSalary api)) = Inr (x1, x2, x3, x4, x5)"
    using assms by (auto simp: getSalaryState_def Let_def split: sum.splits)
  let ?i = "max 0 (min 4 (b - 1))"
  have i: "0 \<le> ?i" "?i \<le> 4" by simp_all
  have ic: "?i = 0 \<or> ?i = 1 \<or> ?i = 2 \<or> ?i = 3 \<or> ?i = 4" using i by arith
  have m: "max 1 (min 5 b) = ?i + 1" by simp
  note ff' = firstFive_postIncrement[OF ff i]
  let ?api' = "api\<lparr>localSalary := (localSalary api)
                 \<lparr>totalPaymentsProcessed := totalPaymentsProcessed (localSalary api) + 1,
                  totalPayrollAmount := totalPayrollAmount (localSalary api) + a,
                  bands := postIncrement (bands (localSalary api)) ?i,
                  round_salary := round_salary (localSalary api) + 1\<rparr>\<rparr>"
  have r: "processSalaryPayment w k a p b api = (?api', Inr ())"
    using assms(1) by (simp add: processSalaryPayment_def Let_def)
  have st_eq: "st = \<lparr>orgAdmin_pub = zeroHex,
                    totalPaymentsProcessed_pub = totalPaymentsProcessed (localSalary api),
                    totalPayrollAmount_pub = totalPayrollAmount (localSalary api),
                    currentPeriod_pub = currentPeriod (localSalary api),
                    activeDisputes_pub = activeDisputes (localSalary api),
                    salaryBands = \<lparr>band1 = x1, band2 = x2, band3 = x3, band4 = x4, band5 = x5\<rparr>,
                    round_pub = round_salary (localSalary api)\<rparr>"
    using assms ff by (auto simp: getSalaryState_def Let_def)
  let ?sb = "\<lparr>band1 = x1 + (if ?i = 0 then 1 else 0),
                 band2 = x2 + (if ?i = 1 then 1 else 0), band3 = x3 + (if ?i = 2 then 1 else 0),
                 band4 = x4 + (if ?i = 3 then 1 else 0), band5 = x5 + (if ?i = 4 then 1 else 0)\<rparr>"
  let ?st' = "st\<lparr>totalPaymentsProcessed_pub := totalPaymentsProcessed_pub st + 1,
                 totalPayrollAmount_pub := totalPayrollAmount_pub st + a,
                 salaryBands := ?sb, round_pub := round_pub st + 1\<rparr>"
  have q: "getSalaryState ?api' = Inr ?st'"
    using assms(1) ff' by (simp add: st_eq getSalaryState_def Let_def)
  have t: "totalPaymentsProcessed_pub ?st' = totalPaymentsProcessed_pub st + 1" by simp
  have sb: "salaryBands ?st' = ?sb" by simp
  have sb0: "salaryBands st = \<lparr>band1 = x1, band2 = x2, band3 = x3, band4 = x4, band5 = x5\<rparr>"
    by (simp add: st_eq)
  have bt: "bandTotal ?st' = bandTotal st + 1"
    using ic unfolding bandTotal_def sb sb0 by auto
  have bo: "bandOf (salaryBands ?st') j
              = bandOf (salaryBands st) j + (if j = max 1 (min 5 b) then 1 else 0)"
    if "1 \<le> j \<and> j \<le> 5" for j
  proof -
    from that have "j = 1 \<or> j = 2 \<or> j = 3 \<or> j = 4 \<or> j = 5" by arith
    then show ?thesis unfolding m sb sb0 bandOf_def using ic by auto
  qed
  have "deployment ?api' = None" using assms(1) by simp
  with r q t bt bo show ?thesis by blast
qed


lemma getSalaryState_local_cong:
  "deployment a = None \<Longrightarrow> deployment b = None \<Longrightarrow> localSalary a = localSalary b
     \<Longrightarrow> getSalaryState a = getSalaryState b"
  by (simp add: getSalaryState_def)

lemma local_advancePeriod_query:
  assumes "deployment api = None" and "getSalaryState api = Inr st"
  shows "getSalaryState (fst (advancePeriod w api))
           = Inr (st\<lparr>currentPeriod_pub := currentPeriod_pub st + 1, round_pub := round_pub st + 1\<rparr>)"
  using assms
  by (auto simp: advancePeriod_def getSalaryState_def Let_def split: sum.splits)

lemma perform_band_invariant:
  assumes "deployment api = None" and "getSalaryState api = Inr st"
      and "bandTotal st = totalPaymentsProcessed_pub st"
  shows "\<exists>st'. getSalaryState (perform op api) = Inr st'
           \<and> bandTotal st' = totalPaymentsProcessed_pub st'"
proof (cases op)
  case (ProcessSalaryPayment w k a p b)
  from local_payment_query[OF assms(1,2), of w k a p b] assms(3) show ?thesis
    by (auto simp: ProcessSalaryPayment)
next
  case (AdvancePeriod w)
  from local_advancePeriod_query[OF assms(1,2), of w] assms(3) show ?thesis
    by (simp add: AdvancePeriod bandTotal_def)
next
  case (AddHrOperator w k)
  have "getSalaryState (perform op api) = getSalaryState api"
    by (rule getSalaryState_local_cong)
       (simp_all add: perform_local assms(1) AddHrOperator addHrOperator_def)
  with assms show ?thesis by simp
next
  case (OnboardEmployee w k)
  have "getSalaryState (perform op api) = getSalaryState api"
    by (rule getSalaryState_local_cong)
       (simp_all add: perform_local assms(1) OnboardEmployee onboardEmployee_def)
  with assms show ?thesis by simp
next
  case (OffboardEmployee w k)
  have "getSalaryState (perform op api) = getSalaryState api"
    by (rule getSalaryState_local_cong)
       (simp_all add: perform_local assms(1) OffboardEmployee offboardEmployee_def)
  with assms show ?thesis by simp
next
  case (ProveEmployment w)
  with assms show ?thesis by (simp add: proveEmployment_def)
next
  case (ConfirmSalaryReceipt w)
  with assms show ?thesis by (simp add: confirmSalaryReceipt_def)
next
  case (ProveSalaryRange w lo hi)
  with assms show ?thesis by (simp add: proveSalaryRange_def)
next
  case (SubmitReview w rs t h)
  have "getSalaryState (perform op api) = getSalaryState api"
    by (rule getSalaryState_local_cong)
       (simp_all add: perform_local assms(1) SubmitReview submitReview_def Let_def)
  with assms show ?thesis by simp
next
  case (SyncReviewToken w t)
  with assms show ?thesis by (simp add: sendToReview_def)
next
  case (AdvanceReviewPeriod w)
  with assms show ?thesis by (simp add: sendToReview_def)
qed

lemma band_invariant_reachable:
  "\<exists>st. getSalaryState (performAll ops newEchoAPI) = Inr st
        \<and> bandTotal st = totalPaymentsProcessed_pub st"
proof -
  have gen: "deployment api = None \<Longrightarrow> getSalaryState api = Inr st
               \<Longrightarrow> bandTotal st = totalPaymentsProcessed_pub st
               \<Longrightarrow> \<exists>st'. getSalaryState (performAll ops api) = Inr st'
                      \<and> bandTotal st' = totalPaymentsProcessed_pub st'" for api st
  proof (induction ops arbitrary: api st)
    case Nil
    then show ?case by simp
  next
    case (Cons op ops)
    from perform_band_invariant[OF Cons.prems, of op] obtain st1 where
      "getSalaryState (perform op api) = Inr st1" "bandTotal st1 = totalPaymentsProcessed_pub st1"
      by blast
    with Cons.IH[OF perform_local[OF Cons.prems(1)]] show ?case by simp
  qed
  show ?thesis
    by (rule gen[OF _ getSalaryState_new]) (simp_all add: newEchoAPI_def bandTotal_def)
qed



section \<open>Counters never go down\<close>

lemma slotLe_refl: "slotLe x x"
  by (simp add: slotLe_def split: option.splits jsnum.splits)

lemma slotLe_trans: "slotLe x y \<Longrightarrow> slotLe y z \<Longrightarrow> slotLe x z"
  by (auto simp: slotLe_def split: option.splits jsnum.splits)

lemma slotLe_postIncrement: "slotLe (arr i) (postIncrement arr j i)"
  by (simp add: slotLe_def postIncrement_apply split: option.splits jsnum.splits)

lemma countersNotDecreased_refl: "countersNotDecreased api api"
  by (simp add: countersNotDecreased_def slotLe_refl split: option.splits)

lemma countersNotDecreased_trans:
  assumes "countersNotDecreased a b" and "countersNotDecreased b c"
  shows "countersNotDecreased a c"
proof -
  have 1: "\<forall>i \<in> {0..4}. slotLe (bands (localSalary a) i) (bands (localSalary c) i)"
    using assms by (auto simp: countersNotDecreased_def intro: slotLe_trans)
  have 2: "\<forall>k \<in> set categories. \<forall>i \<in> {0..4}.
            slotLe (countersOf (ratingCounters (localReview a)) k i)
                   (countersOf (ratingCounters (localReview c)) k i)"
    using assms unfolding countersNotDecreased_def by (blast intro: slotLe_trans)
  have 3: "(case deployment a of
            None \<Rightarrow> True
          | Some x \<Rightarrow>
              (case deployment c of
                 None \<Rightarrow> False
               | Some x' \<Rightarrow>
                   (\<forall>k \<in> {1..5}. bandCounter (payment x) k \<le> bandCounter (payment x') k)
                   \<and> (\<forall>cat \<in> set categories. \<forall>k \<in> {1..5}.
                         ratingCounter (review x) cat k \<le> ratingCounter (review x') cat k)))"
  proof (cases "deployment a")
    case None
    then show ?thesis by simp
  next
    case (Some x)
    with assms(1) obtain y where y: "deployment b = Some y"
      and xy1: "\<And>k. k \<in> {1..5} \<Longrightarrow> bandCounter (payment x) k \<le> bandCounter (payment y) k"
      and xy2: "\<And>cat k. cat \<in> set categories \<Longrightarrow> k \<in> {1..5}
                  \<Longrightarrow> ratingCounter (review x) cat k \<le> ratingCounter (review y) cat k"
      unfolding countersNotDecreased_def by (auto split: option.splits)
    from y assms(2) obtain z where z: "deployment c = Some z"
      and yz1: "\<And>k. k \<in> {1..5} \<Longrightarrow> bandCounter (payment y) k \<le> bandCounter (payment z) k"
      and yz2: "\<And>cat k. cat \<in> set categories \<Longrightarrow> k \<in> {1..5}
                  \<Longrightarrow> ratingCounter (review y) cat k \<le> ratingCounter (review z) cat k"
      unfolding countersNotDecreased_def by (auto split: option.splits)
    have "bandCounter (payment x) k \<le> bandCounter (payment z) k" if "k \<in> {1..5}" for k
      using xy1[OF that] yz1[OF that] by simp
    moreover have "ratingCounter (review x) cat k \<le> ratingCounter (review z) cat k"
      if "cat \<in> set categories" "k \<in> {1..5}" for cat k
      using xy2[OF that] yz2[OF that] by simp
    ultimately show ?thesis by (simp add: Some z)
  qed
  from 1 2 3 show ?thesis unfolding countersNotDecreased_def by blast
qed

lemma countersOf_simps:
  "countersOf (rc\<lparr>cultureCounters := a, compensationCounters := b, managementCounters := c,
                  workLifeBalanceCounters := d, careerGrowthCounters := e\<rparr>) k
     = (case k of Culture \<Rightarrow> a | Compensation \<Rightarrow> b | Management \<Rightarrow> c
        | WorkLifeBalance \<Rightarrow> d | CareerGrowth \<Rightarrow> e)"
  by (simp add: countersOf_def split: category.splits)

lemma perform_countersNotDecreased: "countersNotDecreased api (perform op api)"
proof (cases "deployment api")
  case None
  show ?thesis
  proof (cases op)
    case (ProcessSalaryPayment w k a p b)
    then show ?thesis using None
      by (simp add: countersNotDecreased_def processSalaryPayment_def Let_def slotLe_refl
          slotLe_postIncrement)
  next
    case (SubmitReview w rs t h)
    then show ?thesis using None
      by (auto simp: countersNotDecreased_def submitReview_def Let_def slotLe_refl
          slotLe_postIncrement countersOf_simps countersOf_def split: category.splits)
  qed (use None in \<open>simp_all add: countersNotDecreased_def method_defs Let_def slotLe_refl\<close>)
next
  case (Some c)
  show ?thesis
  proof (cases op)
    case (ProcessSalaryPayment w k a p b)
    then show ?thesis using Some
      by (auto simp: countersNotDecreased_def processSalaryPayment_def callTx_salary_def
          processPayment_def slotLe_refl)
  next
    case (SubmitReview w rs t h)
    then show ?thesis using Some
      by (auto simp: countersNotDecreased_def submitReview_def submitReview_rev_def Let_def
          slotLe_refl bumpRating_def)
  qed (use Some in \<open>auto simp: countersNotDecreased_def method_defs ledger_defs Let_def slotLe_refl
         split: sum.splits digest.splits\<close>)
qed

text \<open>
  Claim C8. Band and rating counters are monotonically non-decreasing: no operation
  (\<^verbatim>\<open>processSalaryPayment\<close>, \<^verbatim>\<open>confirmSalaryReceipt\<close>, \<^verbatim>\<open>advancePeriod\<close>,
  \<^verbatim>\<open>submitReview\<close>, or any other transition), and so no sequence of operations, ever
  decreases one of the five band counters or one of the 25 rating counters, be it a slot
  of the local simulation or a counter of the deployed ledgers.
\<close>

theorem C8_counters_monotone: "countersNotDecreased api (performAll ops api)"
proof (induction ops arbitrary: api)
  case Nil
  show ?case by (simp add: countersNotDecreased_refl)
next
  case (Cons op ops)
  from perform_countersNotDecreased[of api op] Cons.IH[of "perform op api"]
  show ?case by (simp add: countersNotDecreased_trans)
qed

theorem C8_counters_monotone_witness:
  "(2::int) \<in> {0..4}
   \<and> slotLe (bands (localSalary newEchoAPI) 2)
             (bands (localSalary (performAll sampleOps newEchoAPI)) 2)
   \<and> bands (localSalary newEchoAPI) 2 = Some (Num 0)
   \<and> bands (localSalary (performAll sampleOps newEchoAPI)) 2 = Some (Num 1)
   \<and> countersNotDecreased deployedAPI (performAll sampleOps deployedAPI)"
proof -
  have m: "(2::int) \<in> {0..4}" by simp
  from C8_counters_monotone[of newEchoAPI sampleOps] m
  have 1: "slotLe (bands (localSalary newEchoAPI) 2)
             (bands (localSalary (performAll sampleOps newEchoAPI)) 2)"
    unfolding countersNotDecreased_def by blast
  have 2: "bands (localSalary newEchoAPI) 2 = Some (Num 0)"
    by (simp add: newEchoAPI_def makeDefaultLocalSalary_def zeros5_def)
  have 3: "bands (localSalary (performAll sampleOps newEchoAPI)) 2 = Some (Num 1)"
    by (simp add: sampleOps_def method_defs Let_def newEchoAPI_def makeDefaultLocalSalary_def
        zeros5_def postIncrement_def)
  from m 1 2 3 C8_counters_monotone[of deployedAPI sampleOps] show ?thesis by blast
qed

section \<open>Reviews\<close>

lemma toRatingDist_postIncrement:
  assumes "toRatingDist arr = Inr d" and "1 \<le> s" and "s \<le> 5"
  shows "\<exists>d'. toRatingDist (postIncrement arr (s - 1)) = Inr d'
           \<and> (\<forall>k. 1 \<le> k \<and> k \<le> 5 \<longrightarrow> ratingOf d' k = ratingOf d k + (if k = s then 1 else 0))"
proof -
  from assms(1) obtain a b c e f where ff: "firstFive arr = Inr (a, b, c, e, f)"
    and d: "d = \<lparr>rating1 = a, rating2 = b, rating3 = c, rating4 = e, rating5 = f\<rparr>"
    by (auto simp: toRatingDist_def split: sum.splits)
  have i: "0 \<le> s - 1" "s - 1 \<le> 4" using assms(2,3) by simp_all
  note ff' = firstFive_postIncrement[OF ff i]
  let ?d' = "\<lparr>rating1 = a + (if s - 1 = 0 then 1 else 0), rating2 = b + (if s - 1 = 1 then 1 else 0),
               rating3 = c + (if s - 1 = 2 then 1 else 0), rating4 = e + (if s - 1 = 3 then 1 else 0),
               rating5 = f + (if s - 1 = 4 then 1 else 0)\<rparr>"
  have q: "toRatingDist (postIncrement arr (s - 1)) = Inr ?d'"
    by (simp add: toRatingDist_def ff')
  have "ratingOf ?d' k = ratingOf d k + (if k = s then 1 else 0)" if "1 \<le> k \<and> k \<le> 5" for k
  proof -
    from that have "k = 1 \<or> k = 2 \<or> k = 3 \<or> k = 4 \<or> k = 5" by arith
    then show ?thesis unfolding d ratingOf_def by auto
  qed
  with q show ?thesis by blast
qed

lemma getReviewState_local_Inr:
  assumes "deployment api = None"
  shows "getReviewState api = Inr st \<longleftrightarrow>
           (\<exists>cu co ma wo ca.
              toRatingDist (cultureCounters (ratingCounters (localReview api))) = Inr cu
            \<and> toRatingDist (compensationCounters (ratingCounters (localReview api))) = Inr co
            \<and> toRatingDist (managementCounters (ratingCounters (localReview api))) = Inr ma
            \<and> toRatingDist (workLifeBalanceCounters (ratingCounters (localReview api))) = Inr wo
            \<and> toRatingDist (careerGrowthCounters (ratingCounters (localReview api))) = Inr ca
            \<and> st = \<lparr>orgAdmin_rpub = zeroHex,
                      totalReviews_pub = totalReviews (localReview api),
                      currentReviewPeriod_pub = currentReviewPeriod (localReview api),
                      round_rpub = round_review (localReview api),
                      ratingAggregates =
                        \<lparr>culture_agg = cu, compensation_agg = co, management_agg = ma,
                         workLifeBalance_agg = wo, careerGrowth_agg = ca\<rparr>\<rparr>)"
  using assms by (auto simp: getReviewState_def Let_def split: sum.splits)

lemma local_review_step:
  assumes "deployment api = None" and "getReviewState api = Inr st"
      and "scoresInRange (scoreOf rs)"
  shows "\<exists>api' st'. submitReview w rs t h api = (api', Inr ())
           \<and> deployment api' = None
           \<and> getReviewState api' = Inr st'
           \<and> totalReviews_pub st' = totalReviews_pub st + 1
           \<and> (\<forall>c k. 1 \<le> k \<and> k \<le> 5 \<longrightarrow>
                  ratingOf (distOf (ratingAggregates st') c) k
                    = ratingOf (distOf (ratingAggregates st) c) k
                        + (if k = scoreOf rs c then 1 else 0))"
proof -
  let ?rc = "ratingCounters (localReview api)"
  from assms(1,2) obtain cu co ma wo ca where
    cu: "toRatingDist (cultureCounters ?rc) = Inr cu" and
    co: "toRatingDist (compensationCounters ?rc) = Inr co" and
    ma: "toRatingDist (managementCounters ?rc) = Inr ma" and
    wo: "toRatingDist (workLifeBalanceCounters ?rc) = Inr wo" and
    ca: "toRatingDist (careerGrowthCounters ?rc) = Inr ca" and
    st: "st = \<lparr>orgAdmin_rpub = zeroHex,
                      totalReviews_pub = totalReviews (localReview api),
                      currentReviewPeriod_pub = currentReviewPeriod (localReview api),
                      round_rpub = round_review (localReview api),
                      ratingAggregates =
                        \<lparr>culture_agg = cu, compensation_agg = co, management_agg = ma,
                         workLifeBalance_agg = wo, careerGrowth_agg = ca\<rparr>\<rparr>"
    by (auto simp: getReviewState_local_Inr)
  from assms(3) have r:
    "1 \<le> culture rs" "culture rs \<le> 5" "1 \<le> compensation rs" "compensation rs \<le> 5"
    "1 \<le> management rs" "management rs \<le> 5" "1 \<le> workLifeBalance rs" "workLifeBalance rs \<le> 5"
    "1 \<le> careerGrowth rs" "careerGrowth rs \<le> 5"
    by (simp_all add: scoresInRange_def scoreOf_def)
  from toRatingDist_postIncrement[OF cu r(1,2)] obtain cu' where
    cu': "toRatingDist (postIncrement (cultureCounters ?rc) (culture rs - 1)) = Inr cu'" and
    cuk: "\<And>k. 1 \<le> k \<and> k \<le> 5 \<Longrightarrow> ratingOf cu' k = ratingOf cu k + (if k = culture rs then 1 else 0)"
    by blast
  from toRatingDist_postIncrement[OF co r(3,4)] obtain co' where
    co': "toRatingDist (postIncrement (compensationCounters ?rc) (compensation rs - 1)) = Inr co'" and
    cok: "\<And>k. 1 \<le> k \<and> k \<le> 5 \<Longrightarrow> ratingOf co' k = ratingOf co k + (if k = compensation rs then 1 else 0)"
    by blast
  from toRatingDist_postIncrement[OF ma r(5,6)] obtain ma' where
    ma': "toRatingDist (postIncrement (managementCounters ?rc) (management rs - 1)) = Inr ma'" and
    mak: "\<And>k. 1 \<le> k \<and> k \<le> 5 \<Longrightarrow> ratingOf ma' k = ratingOf ma k + (if k = management rs then 1 else 0)"
    by blast
  from toRatingDist_postIncrement[OF wo r(7,8)] obtain wo' where
    wo': "toRatingDist (postIncrement (workLifeBalanceCounters ?rc) (workLifeBalance rs - 1)) = Inr wo'" and
    wok: "\<And>k. 1 \<le> k \<and> k \<le> 5 \<Longrightarrow> ratingOf wo' k = ratingOf wo k + (if k = workLifeBalance rs then 1 else 0)"
    by blast
  from toRatingDist_postIncrement[OF ca r(9,10)] obtain ca' where
    ca': "toRatingDist (postIncrement (careerGrowthCounters ?rc) (careerGrowth rs - 1)) = Inr ca'" and
    cak: "\<And>k. 1 \<le> k \<and> k \<le> 5 \<Longrightarrow> ratingOf ca' k = ratingOf ca k + (if k = careerGrowth rs then 1 else 0)"
    by blast
  obtain api' where s: "submitReview w rs t h api = (api', Inr ())"
    and d': "deployment api' = None"
    and lr: "localReview api' = (localReview api)
               \<lparr>ratingCounters := ?rc
                  \<lparr>cultureCounters := postIncrement (cultureCounters ?rc) (culture rs - 1),
                   compensationCounters := postIncrement (compensationCounters ?rc) (compensation rs - 1),
                   managementCounters := postIncrement (managementCounters ?rc) (management rs - 1),
                   workLifeBalanceCounters :=
                     postIncrement (workLifeBalanceCounters ?rc) (workLifeBalance rs - 1),
                   careerGrowthCounters := postIncrement (careerGrowthCounters ?rc) (careerGrowth rs - 1)\<rparr>,
                totalReviews := totalReviews (localReview api) + 1,
                round_review := round_review (localReview api) + 1\<rparr>"
    using assms(1) by (simp add: submitReview_def Let_def)
  let ?st' = "\<lparr>orgAdmin_rpub = zeroHex,
                      totalReviews_pub = totalReviews (localReview api) + 1,
                      currentReviewPeriod_pub = currentReviewPeriod (localReview api),
                      round_rpub = round_review (localReview api) + 1,
                      ratingAggregates =
                        \<lparr>culture_agg = cu', compensation_agg = co', management_agg = ma',
                         workLifeBalance_agg = wo', careerGrowth_agg = ca'\<rparr>\<rparr>"
  have q: "getReviewState api' = Inr ?st'"
    by (simp add: getReviewState_local_Inr[OF d'] lr cu' co' ma' wo' ca')
  have "ratingOf (distOf (ratingAggregates ?st') c) k
          = ratingOf (distOf (ratingAggregates st) c) k + (if k = scoreOf rs c then 1 else 0)"
    if "1 \<le> k \<and> k \<le> 5" for c k
    using cuk[OF that] cok[OF that] mak[OF that] wok[OF that] cak[OF that]
    by (cases c) (simp_all add: st distOf_def scoreOf_def)
  moreover have "totalReviews_pub ?st' = totalReviews_pub st + 1" by (simp add: st)
  ultimately show ?thesis using s d' q by blast
qed

lemma ratingOf_ledgerDist:
  "1 \<le> k \<and> k \<le> 5 \<Longrightarrow> ratingOf (ledgerDist f) k = int (f k)"
proof -
  assume "1 \<le> k \<and> k \<le> 5"
  then have "k = 1 \<or> k = 2 \<or> k = 3 \<or> k = 4 \<or> k = 5" by arith
  then show ?thesis by (auto simp: ratingOf_def ledgerDist_def)
qed

lemma getReviewState_deployed:
  "deployment api = Some c \<Longrightarrow>
   getReviewState api =
     Inr \<lparr>orgAdmin_rpub = adminKey_rev (review c),
          totalReviews_pub = int (totalReviews_rev (review c)),
          currentReviewPeriod_pub = int (currentPeriod_rev (review c)),
          round_rpub = int (round_rev (review c)),
          ratingAggregates =
            \<lparr>culture_agg = ledgerDist (ratingCounter (review c) Culture),
             compensation_agg = ledgerDist (ratingCounter (review c) Compensation),
             management_agg = ledgerDist (ratingCounter (review c) Management),
             workLifeBalance_agg = ledgerDist (ratingCounter (review c) WorkLifeBalance),
             careerGrowth_agg = ledgerDist (ratingCounter (review c) CareerGrowth)\<rparr>\<rparr>"
  by (simp add: getReviewState_def Let_def)

lemma distOf_deployed:
  "deployment api = Some c \<Longrightarrow> getReviewState api = Inr st
     \<Longrightarrow> distOf (ratingAggregates st) k = ledgerDist (ratingCounter (review c) k)"
  by (cases k) (auto simp: getReviewState_deployed distOf_def)

lemma totalReviews_deployed:
  "deployment api = Some c \<Longrightarrow> getReviewState api = Inr st
     \<Longrightarrow> totalReviews_pub st = int (totalReviews_rev (review c))"
  by (auto simp: getReviewState_deployed)

lemma deployed_review_step:
  assumes "deployment api = Some c" and "submitReview w rs t h api = (api', Inr u)"
      and "getReviewState api = Inr st"
  shows "\<exists>st'. getReviewState api' = Inr st'
           \<and> totalReviews_pub st' = totalReviews_pub st + 1
           \<and> (\<forall>c k. 1 \<le> k \<and> k \<le> 5 \<longrightarrow>
                  ratingOf (distOf (ratingAggregates st') c) k
                    = ratingOf (distOf (ratingAggregates st) c) k
                        + (if k = scoreOf rs c then 1 else 0))"
proof -
  from assms(1,2) obtain L where
    L: "submitReview_rev (review c) (ownerProof w) (secret w) (leaf w) (Bytes h) (scoreOf rs) = Inr L"
    and d': "deployment api' = Some (c\<lparr>review := L\<rparr>)"
    by (auto simp: submitReview_def Let_def split: sum.splits)
  from L have rc: "ratingCounter L = bumpRating (ratingCounter (review c)) (scoreOf rs)"
    and tr: "totalReviews_rev L = totalReviews_rev (review c) + 1"
    by (auto simp: submitReview_rev_def split: if_splits)
  obtain st' where q: "getReviewState api' = Inr st'"
    by (simp add: getReviewState_deployed[OF d'])
  have "ratingOf (distOf (ratingAggregates st') k) j
          = ratingOf (distOf (ratingAggregates st) k) j + (if j = scoreOf rs k then 1 else 0)"
    if "1 \<le> j \<and> j \<le> 5" for k j
    using that
    by (simp add: distOf_deployed[OF d' q] distOf_deployed[OF assms(1,3)] ratingOf_ledgerDist rc
        bumpRating_def)
  moreover have "totalReviews_pub st' = totalReviews_pub st + 1"
    by (simp add: totalReviews_deployed[OF d' q] totalReviews_deployed[OF assms(1,3)] tr)
  ultimately show ?thesis using q by blast
qed

text \<open>
  Claim C4. For every accepted \<^verbatim>\<open>submitReview\<close> call whose five scores are each between
  1 and 5, the state query afterwards shows, in every category, the counter of the
  supplied score incremented by one and the other four counters unchanged, and
  \<open>totalReviews\<close> incremented by one.
\<close>

theorem C4_review_counters:
  assumes "submitReview w rs t h api = (api', Inr u)"
      and "scoresInRange (scoreOf rs)"
      and "getReviewState api = Inr st"
  shows "\<exists>st'. getReviewState api' = Inr st'
           \<and> totalReviews_pub st' = totalReviews_pub st + 1
           \<and> (\<forall>c k. 1 \<le> k \<and> k \<le> 5 \<longrightarrow>
                  ratingOf (distOf (ratingAggregates st') c) k
                    = ratingOf (distOf (ratingAggregates st) c) k
                        + (if k = scoreOf rs c then 1 else 0))"
proof (cases "deployment api")
  case None
  from local_review_step[OF None assms(3,2), of w t h] assms(1) show ?thesis by auto
next
  case (Some c)
  from deployed_review_step[OF Some assms(1,3)] show ?thesis .
qed

lemma toRatingDist_zeros5: "toRatingDist zeros5 = Inr zeroDist"
  by (simp add: toRatingDist_def firstFive_def toBigInt_def zeros5_def zeroDist_def)

lemma getReviewState_new:
  "getReviewState newEchoAPI =
     Inr \<lparr>orgAdmin_rpub = zeroHex, totalReviews_pub = 0, currentReviewPeriod_pub = 1,
          round_rpub = 0,
          ratingAggregates =
            \<lparr>culture_agg = zeroDist, compensation_agg = zeroDist, management_agg = zeroDist,
             workLifeBalance_agg = zeroDist, careerGrowth_agg = zeroDist\<rparr>\<rparr>"
  by (simp add: getReviewState_def newEchoAPI_def makeDefaultLocalReview_def toRatingDist_zeros5)

lemma reviewReadyAPI_deployment:
  "deployment reviewReadyAPI =
     Some ((initialChain (Bytes ''ad''))
       \<lparr>review := (review (initialChain (Bytes ''ad'')))
          \<lparr>importedTokenTree := [ReviewTokenCommitment 42 1 9]\<rparr>\<rparr>)"
  by (simp add: reviewReadyAPI_def sendToReview_def deployedAPI_def deployedEchoAPI_def
      importToken_def adminWitness_def initialChain_def)

theorem C4_review_counters_witness:
  "scoresInRange (scoreOf sampleRatings)
   \<and> (\<exists>api' st'. submitReview employeeWitness sampleRatings ''fine'' ''0xab'' newEchoAPI
                     = (api', Inr ())
         \<and> getReviewState api' = Inr st' \<and> totalReviews_pub st' = 1
         \<and> ratingOf (distOf (ratingAggregates st') Culture) 5 = 1
         \<and> ratingOf (distOf (ratingAggregates st') Culture) 4 = 0
         \<and> ratingOf (distOf (ratingAggregates st') Management) 3 = 1)
   \<and> (\<exists>api' st'. submitReview employeeWitness sampleRatings ''fine'' ''0xab'' reviewReadyAPI
                     = (api', Inr ())
         \<and> getReviewState api' = Inr st' \<and> totalReviews_pub st' = 1
         \<and> ratingOf (distOf (ratingAggregates st') Culture) 5 = 1
         \<and> ratingOf (distOf (ratingAggregates st') Culture) 4 = 0
         \<and> ratingOf (distOf (ratingAggregates st') Management) 3 = 1)"
proof -
  have sr: "scoresInRange (scoreOf sampleRatings)"
    by (simp add: scoresInRange_def scoreOf_def sampleRatings_def)
  have sc: "scoreOf sampleRatings Culture = 5" "scoreOf sampleRatings Management = 3"
    by (simp_all add: scoreOf_def sampleRatings_def)
  have z: "ratingOf zeroDist k = 0" for k by (simp add: ratingOf_def zeroDist_def)
  obtain a1 where a1: "submitReview employeeWitness sampleRatings ''fine'' ''0xab'' newEchoAPI
                         = (a1, Inr ())"
    by (simp add: submitReview_def newEchoAPI_def Let_def)
  from C4_review_counters[OF a1 sr getReviewState_new] obtain s1 where
    q1: "getReviewState a1 = Inr s1" and t1: "totalReviews_pub s1 = 1" and
    k1: "\<And>c k. 1 \<le> k \<and> k \<le> 5 \<Longrightarrow>
           ratingOf (distOf (ratingAggregates s1) c) k
             = ratingOf zeroDist k + (if k = scoreOf sampleRatings c then 1 else 0)"
    by (auto simp: distOf_def split: category.splits)
  have p1: "ratingOf (distOf (ratingAggregates s1) Culture) 5 = 1"
           "ratingOf (distOf (ratingAggregates s1) Culture) 4 = 0"
           "ratingOf (distOf (ratingAggregates s1) Management) 3 = 1"
    using k1[of 5 Culture] k1[of 4 Culture] k1[of 3 Management] by (simp_all add: z sc)
  obtain a2 where a2: "submitReview employeeWitness sampleRatings ''fine'' ''0xab'' reviewReadyAPI
                         = (a2, Inr ())"
    by (simp add: submitReview_def reviewReadyAPI_deployment submitReview_rev_def
        employeeWitness_def initialChain_def sr Let_def)
  obtain s0 where q0: "getReviewState reviewReadyAPI = Inr s0"
    by (simp add: getReviewState_deployed[OF reviewReadyAPI_deployment])
  have t0: "totalReviews_pub s0 = 0"
    by (simp add: totalReviews_deployed[OF reviewReadyAPI_deployment q0] initialChain_def)
  have d0: "ratingOf (distOf (ratingAggregates s0) c) k = 0" if "1 \<le> k \<and> k \<le> 5" for c k
    using that
    by (simp add: distOf_deployed[OF reviewReadyAPI_deployment q0] ratingOf_ledgerDist
        initialChain_def)
  from C4_review_counters[OF a2 sr q0] obtain s2 where
    q2: "getReviewState a2 = Inr s2" and t2: "totalReviews_pub s2 = totalReviews_pub s0 + 1" and
    k2: "\<And>c k. 1 \<le> k \<and> k \<le> 5 \<Longrightarrow>
           ratingOf (distOf (ratingAggregates s2) c) k
             = ratingOf (distOf (ratingAggregates s0) c) k
                 + (if k = scoreOf sampleRatings c then 1 else 0)"
    by blast
  have p2: "ratingOf (distOf (ratingAggregates s2) Culture) 5 = 1"
           "ratingOf (distOf (ratingAggregates s2) Culture) 4 = 0"
           "ratingOf (distOf (ratingAggregates s2) Management) 3 = 1"
    using k2[of 5 Culture] k2[of 4 Culture] k2[of 3 Management] by (simp_all add: d0 sc)
  from sr a1 q1 t1 p1 a2 q2 t2 t0 p2 show ?thesis by auto
qed

section \<open>Scores outside 1..5 in local simulation\<close>





lemma local_submitReview_state:
  assumes "deployment api = None"
  shows "submitReview w rs t h api =
     (api\<lparr>localReview := (localReview api)
               \<lparr>ratingCounters := (ratingCounters (localReview api))
                  \<lparr>cultureCounters :=
                     postIncrement (cultureCounters (ratingCounters (localReview api))) (culture rs - 1),
                   compensationCounters :=
                     postIncrement (compensationCounters (ratingCounters (localReview api)))
                       (compensation rs - 1),
                   managementCounters :=
                     postIncrement (managementCounters (ratingCounters (localReview api)))
                       (management rs - 1),
                   workLifeBalanceCounters :=
                     postIncrement (workLifeBalanceCounters (ratingCounters (localReview api)))
                       (workLifeBalance rs - 1),
                   careerGrowthCounters :=
                     postIncrement (careerGrowthCounters (ratingCounters (localReview api)))
                       (careerGrowth rs - 1)\<rparr>,
                totalReviews := totalReviews (localReview api) + 1,
                round_review := round_review (localReview api) + 1\<rparr>,
           nextAnonId := nextAnonId api + 1,
           publishedReviews :=
             \<lparr>anonId = nextAnonId api, reviewPeriod = currentReviewPeriod (localReview api),
              ratings = rs, content = t, verified = True\<rparr> # publishedReviews api\<rparr>, Inr ())"
  using assms by (simp add: submitReview_def Let_def)


lemma local_submitReview_total:
  assumes "deployment api = None"
  shows "totalReviews (localReview (fst (submitReview w rs t h api)))
           = totalReviews (localReview api) + 1"
  by (simp add: local_submitReview_state[OF assms])










section \<open>Receipts\<close>

text \<open>
  Claim C1 as stated fails in local simulation: after a payment, \<^verbatim>\<open>confirmSalaryReceipt\<close>
  succeeds twice in a row for the same payee; the second call does not yield
  \<open>AlreadyClaimed\<close>.
\<close>

theorem C1_local_double_claim:
  "confirmSalaryReceipt payeeWitness paidLocalAPI = (paidLocalAPI, Inr True)
   \<and> confirmSalaryReceipt payeeWitness (fst (confirmSalaryReceipt payeeWitness paidLocalAPI))
       = (paidLocalAPI, Inr True)
   \<and> snd (confirmSalaryReceipt payeeWitness (fst (confirmSalaryReceipt payeeWitness paidLocalAPI)))
       \<noteq> Inl AlreadyClaimed"
  by (simp add: confirmSalaryReceipt_def paidLocalAPI_def processSalaryPayment_def Let_def
      newEchoAPI_def)

text \<open>
  Claim C1, amended. With a deployment connected, once \<^verbatim>\<open>confirmSalaryReceipt\<close> has
  succeeded for a payment commitment, a second call with the same payee secret for the
  same commitment yields \<open>AlreadyClaimed\<close> and leaves the whole state, counters and
  receipt-nullifier set included, as it was after the first call. In local simulation there
  is no receipt-nullifier set: every call succeeds, reports a review token and changes
  nothing.
\<close>

theorem C1_double_claim:
  "(deployment api = None \<longrightarrow> confirmSalaryReceipt w api = (api, Inr True))
   \<and> (\<forall>c api1 r w'.
         deployment api = Some c \<and> confirmSalaryReceipt w api = (api1, Inr r)
         \<and> ownerProof w' \<and> secret w' = secret w \<and> leaf w' = leaf w
         \<longrightarrow> confirmSalaryReceipt w' api1 = (api1, Inl AlreadyClaimed))"
  by (auto simp: confirmSalaryReceipt_def confirmReceipt_def split: sum.splits if_splits)

lemma paidAPI_deployment:
  "deployment paidAPI =
     Some ((initialChain (Bytes ''ad''))
       \<lparr>payment := (payment (initialChain (Bytes ''ad'')))
          \<lparr>paymentTree := [PaymentCommitment (Bytes ''e1'') 3 1 7],
           bandCounter := (\<lambda>_. 0)(3 := 1),
           totalProcessed := 1\<rparr>\<rparr>)"
  by (simp add: paidAPI_def deployedAPI_def deployedEchoAPI_def processSalaryPayment_def
      callTx_salary_def processPayment_def adminWitness_def initialChain_def)

theorem C1_double_claim_witness:
  "confirmSalaryReceipt payeeWitness paidLocalAPI = (paidLocalAPI, Inr True)
   \<and> (\<exists>api1. confirmSalaryReceipt payeeWitness paidAPI = (api1, Inr True)
         \<and> confirmSalaryReceipt (payeeWitness\<lparr>randomness := 10\<rparr>) api1
             = (api1, Inl AlreadyClaimed))"
proof -
  have l: "deployment paidLocalAPI = None"
    by (simp add: paidLocalAPI_def processSalaryPayment_def Let_def newEchoAPI_def)
  obtain api1 where a: "confirmSalaryReceipt payeeWitness paidAPI = (api1, Inr True)"
    by (simp add: confirmSalaryReceipt_def paidAPI_deployment confirmReceipt_def
        payeeWitness_def initialChain_def)
  have w: "ownerProof (payeeWitness\<lparr>randomness := 10\<rparr>)"
    "secret (payeeWitness\<lparr>randomness := 10\<rparr>) = secret payeeWitness"
    "leaf (payeeWitness\<lparr>randomness := 10\<rparr>) = leaf payeeWitness"
    by (simp_all add: payeeWitness_def)
  from C1_double_claim[of paidLocalAPI payeeWitness] l
  have 1: "confirmSalaryReceipt payeeWitness paidLocalAPI = (paidLocalAPI, Inr True)" by blast
  from C1_double_claim[of paidAPI payeeWitness] paidAPI_deployment a w
  have 2: "confirmSalaryReceipt (payeeWitness\<lparr>randomness := 10\<rparr>) api1
             = (api1, Inl AlreadyClaimed)" by blast
  from 1 a 2 show ?thesis by blast
qed

section \<open>What the salary query shows of a payment\<close>

lemma deployed_payment_ignores_amount:
  "deployment api = Some c \<Longrightarrow>
     processSalaryPayment w k a p b api = processSalaryPayment w k a' p b api"
  by (simp add: processSalaryPayment_def)

text \<open>
  Claim C5 at a concrete input, in local simulation: two payments that differ only in the
  amount (band 3 both times) leave different public state; the query returns the amount
  itself as \<open>totalPayrollAmount\<close>.
\<close>

theorem C5_local_amount_in_query:
  "map_sum id totalPayrollAmount_pub
     (getSalaryState (fst (processSalaryPayment adminWitness ''e1'' 2000000 1 3 newEchoAPI)))
     = Inr 2000000
   \<and> map_sum id totalPayrollAmount_pub
     (getSalaryState (fst (processSalaryPayment adminWitness ''e1'' 2500000 1 3 newEchoAPI)))
     = Inr 2500000
   \<and> getSalaryState (fst (processSalaryPayment adminWitness ''e1'' 2000000 1 3 newEchoAPI))
     \<noteq> getSalaryState (fst (processSalaryPayment adminWitness ''e1'' 2500000 1 3 newEchoAPI))"
  by (simp add: processSalaryPayment_def Let_def newEchoAPI_def getSalaryState_def
      makeDefaultLocalSalary_def zeros5_def postIncrement_def firstFive_def toBigInt_def)

section \<open>Offboarding\<close>





section \<open>One review per token and period\<close>

lemma performAll_local: "deployment api = None \<Longrightarrow> deployment (performAll ops api) = None"
  by (induction ops arbitrary: api) (simp_all add: perform_local)

lemma perform_nullifiersScoped:
  assumes "nullifiersScoped api"
  shows "nullifiersScoped (perform op api)"
proof (cases "deployment api")
  case None
  from perform_local[OF None] show ?thesis by (simp add: nullifiersScoped_def)
next
  case (Some c)
  with assms have inv: "\<And>s p. ReviewNullifier s p \<in> reviewNullifierSet (review c)
                            \<Longrightarrow> p \<le> currentPeriod_rev (review c)"
    by (simp add: nullifiersScoped_def)
  show ?thesis
  proof (cases op)
    case (SubmitReview w rs t h)
    then show ?thesis using Some inv
      by (auto simp: nullifiersScoped_def submitReview_def submitReview_rev_def Let_def
          split: sum.splits if_splits)
  next
    case (AdvanceReviewPeriod w)
    then show ?thesis using Some inv
      by (auto simp: nullifiersScoped_def sendToReview_def advanceReviewPeriod_def
          split: sum.splits if_splits dest: inv)
  next
    case (SyncReviewToken w t)
    then show ?thesis using Some inv
      by (auto simp: nullifiersScoped_def sendToReview_def importToken_def
          split: sum.splits if_splits)
  qed (use Some inv in \<open>auto simp: nullifiersScoped_def method_defs ledger_defs Let_def
         split: sum.splits digest.splits if_splits\<close>)
qed

lemma performAll_nullifiersScoped:
  "nullifiersScoped api \<Longrightarrow> nullifiersScoped (performAll ops api)"
  by (induction ops arbitrary: api) (simp_all add: perform_nullifiersScoped)

lemma nullifiersScoped_deployed: "nullifiersScoped (deployedEchoAPI admin)"
  by (simp add: nullifiersScoped_def deployedEchoAPI_def initialChain_def)

lemma deployed_double_review:
  assumes "deployment api = Some c" and "nullifiersScoped api"
      and "submitReview w rs t h api = (api1, Inr u)"
      and "ownerProof w' \<and> secret w' = secret w \<and> leaf w' = leaf w"
      and "scoresInRange (scoreOf rs')"
  shows "submitReview w' rs' t' h' api1 = (api1, Inl DoubleReview)
       \<and> (\<forall>wa. roleProof wa \<longrightarrow>
             (\<exists>api3. submitReview w' rs' t' h' (perform (AdvanceReviewPeriod wa) api1)
                       = (api3, Inr ())))"
proof -
  let ?L = "review c"
  let ?n = "ReviewNullifier (secret w) (currentPeriod_rev ?L)"
  from assms(1,3) have acc: "ownerProof w" "leaf w \<in> set (importedTokenTree ?L)"
    "?n \<notin> reviewNullifierSet ?L"
    by (auto simp: submitReview_def submitReview_rev_def Let_def split: sum.splits if_splits)
  let ?L1 = "?L\<lparr>reviewNullifierSet := insert ?n (reviewNullifierSet ?L),
                 ratingCounter := bumpRating (ratingCounter ?L) (scoreOf rs),
                 totalReviews_rev := totalReviews_rev ?L + 1,
                 contentHashes := contentHashes ?L @ [Bytes h]\<rparr>"
  from assms(1,3) have d1: "deployment api1 = Some (c\<lparr>review := ?L1\<rparr>)"
    by (auto simp: submitReview_def submitReview_rev_def Let_def split: sum.splits if_splits)
  have twice: "submitReview w' rs' t' h' api1 = (api1, Inl DoubleReview)"
    using assms(4) acc by (simp add: submitReview_def d1 submitReview_rev_def)
  have fresh: "ReviewNullifier (secret w) (currentPeriod_rev ?L + 1) \<notin> reviewNullifierSet ?L"
  proof
    assume "ReviewNullifier (secret w) (currentPeriod_rev ?L + 1) \<in> reviewNullifierSet ?L"
    with assms(1,2) have "currentPeriod_rev ?L + 1 \<le> currentPeriod_rev ?L"
      by (simp add: nullifiersScoped_def)
    then show False by simp
  qed
  have "\<exists>api3. submitReview w' rs' t' h' (perform (AdvanceReviewPeriod wa) api1) = (api3, Inr ())"
    if "roleProof wa" for wa
    using that assms(4,5) acc fresh
    by (simp add: sendToReview_def d1 advanceReviewPeriod_def submitReview_def
        submitReview_rev_def Let_def)
  with twice show ?thesis by blast
qed

text \<open>
  Claim C2 as stated fails in local simulation: the same review submitted twice in the same
  period is accepted both times and counted twice; the second submission does not yield
  \<open>DoubleReview\<close>.
\<close>

theorem C2_local_double_review:
  "snd (submitReview employeeWitness sampleRatings ''fine'' ''0xab'' newEchoAPI) = Inr ()
   \<and> snd (submitReview employeeWitness sampleRatings ''fine'' ''0xab''
            (fst (submitReview employeeWitness sampleRatings ''fine'' ''0xab'' newEchoAPI)))
       = Inr ()
   \<and> snd (submitReview employeeWitness sampleRatings ''fine'' ''0xab''
            (fst (submitReview employeeWitness sampleRatings ''fine'' ''0xab'' newEchoAPI)))
       \<noteq> Inl DoubleReview
   \<and> totalReviews (localReview (fst (submitReview employeeWitness sampleRatings ''fine'' ''0xab''
            (fst (submitReview employeeWitness sampleRatings ''fine'' ''0xab'' newEchoAPI)))))
       = 2
   \<and> currentReviewPeriod (localReview (fst (submitReview employeeWitness sampleRatings ''fine''
            ''0xab'' (fst (submitReview employeeWitness sampleRatings ''fine'' ''0xab''
               newEchoAPI)))))
       = currentReviewPeriod (localReview newEchoAPI)"
  by (simp add: submitReview_def Let_def newEchoAPI_def makeDefaultLocalReview_def)

text \<open>
  Claim C2, amended. With a deployment connected (any state reached from freshly deployed
  contracts), once a review submitted with an imported token has been accepted, a second
  submission with the same token in the same period yields \<open>DoubleReview\<close> and leaves the
  state unchanged, and after \<open>advanceReviewPeriod\<close> has incremented the period a
  submission with the same token (scores between 1 and 5) is accepted again. In local
  simulation there are no review nullifiers: a second submission in the same period is
  accepted and counted like the first.
\<close>

theorem C2_double_review:
  assumes "api = performAll ops newEchoAPI \<or> api = performAll ops (deployedEchoAPI admin)"
      and "submitReview w rs t h api = (api1, Inr u)"
      and "ownerProof w' \<and> secret w' = secret w \<and> leaf w' = leaf w"
      and "scoresInRange (scoreOf rs')"
  shows "(deployment api = None \<longrightarrow>
            (\<exists>api2. submitReview w' rs' t' h' api1 = (api2, Inr ())
               \<and> totalReviews (localReview api2) = totalReviews (localReview api) + 2))
       \<and> (deployment api \<noteq> None \<longrightarrow>
            submitReview w' rs' t' h' api1 = (api1, Inl DoubleReview)
            \<and> (\<forall>wa. roleProof wa \<longrightarrow>
                  (\<exists>api3. submitReview w' rs' t' h' (perform (AdvanceReviewPeriod wa) api1)
                            = (api3, Inr ()))))"
proof (cases "deployment api")
  case None
  from assms(2) None have a1: "api1 = fst (submitReview w rs t h api)"
    and d1: "deployment api1 = None"
    by (auto simp: local_submitReview_state)
  have "submitReview w' rs' t' h' api1 = (fst (submitReview w' rs' t' h' api1), Inr ())"
    by (simp add: local_submitReview_state[OF d1])
  moreover have "totalReviews (localReview (fst (submitReview w' rs' t' h' api1)))
                   = totalReviews (localReview api) + 2"
  proof -
    have "totalReviews (localReview (fst (submitReview w' rs' t' h' api1)))
            = totalReviews (localReview api1) + 1"
      by (rule local_submitReview_total[OF d1])
    moreover have "totalReviews (localReview api1) = totalReviews (localReview api) + 1"
      unfolding a1 by (rule local_submitReview_total[OF None])
    ultimately show ?thesis by simp
  qed
  ultimately show ?thesis using None by blast
next
  case (Some c)
  have "api \<noteq> performAll ops newEchoAPI"
  proof
    assume "api = performAll ops newEchoAPI"
    then have "deployment api = None"
      by (simp add: performAll_local newEchoAPI_def)
    with Some show False by simp
  qed
  with assms(1) have "api = performAll ops (deployedEchoAPI admin)" by simp
  then have "nullifiersScoped api"
    by (simp add: performAll_nullifiersScoped nullifiersScoped_deployed)
  from deployed_double_review[OF Some this assms(2,3,4)] Some show ?thesis by simp
qed

theorem C2_double_review_witness:
  "(\<exists>api1 api2. submitReview employeeWitness sampleRatings ''fine'' ''0xab'' newEchoAPI
                    = (api1, Inr ())
       \<and> submitReview employeeWitness sampleRatings ''again'' ''0xcd'' api1 = (api2, Inr ())
       \<and> totalReviews (localReview api2) = 2)
   \<and> (\<exists>api1. submitReview employeeWitness sampleRatings ''fine'' ''0xab'' reviewReadyAPI
                 = (api1, Inr ())
       \<and> submitReview employeeWitness sampleRatings ''again'' ''0xcd'' api1
           = (api1, Inl DoubleReview)
       \<and> (\<exists>api3. submitReview employeeWitness sampleRatings ''again'' ''0xcd''
                     (perform (AdvanceReviewPeriod adminWitness) api1) = (api3, Inr ())))"
proof -
  have sr: "scoresInRange (scoreOf sampleRatings)"
    by (simp add: scoresInRange_def scoreOf_def sampleRatings_def)
  have same: "ownerProof employeeWitness \<and> secret employeeWitness = secret employeeWitness
              \<and> leaf employeeWitness = leaf employeeWitness"
    by (simp add: employeeWitness_def)
  have rp: "roleProof adminWitness" by (simp add: adminWitness_def)
  have l: "deployment newEchoAPI = None" by (simp add: newEchoAPI_def)
  have t0: "totalReviews (localReview newEchoAPI) = 0"
    by (simp add: newEchoAPI_def makeDefaultLocalReview_def)
  have r0: "newEchoAPI = performAll [] newEchoAPI \<or> newEchoAPI = performAll [] (deployedEchoAPI (Bytes ''ad''))"
    by simp
  obtain a1 where a1: "submitReview employeeWitness sampleRatings ''fine'' ''0xab'' newEchoAPI
                         = (a1, Inr ())"
    by (simp add: local_submitReview_state[OF l])
  from C2_double_review[OF r0 a1 same sr, of "''again''" "''0xcd''"] l t0
  have 1: "\<exists>api2. submitReview employeeWitness sampleRatings ''again'' ''0xcd'' a1 = (api2, Inr ())
             \<and> totalReviews (localReview api2) = 2"
    by simp
  have r1: "reviewReadyAPI = performAll [SyncReviewToken adminWitness (ReviewTokenCommitment 42 1 9)] newEchoAPI
            \<or> reviewReadyAPI = performAll [SyncReviewToken adminWitness (ReviewTokenCommitment 42 1 9)]
                 (deployedEchoAPI (Bytes ''ad''))"
    by (simp add: reviewReadyAPI_def deployedAPI_def)
  have d: "deployment reviewReadyAPI \<noteq> None" by (simp add: reviewReadyAPI_deployment)
  obtain b1 where b1: "submitReview employeeWitness sampleRatings ''fine'' ''0xab'' reviewReadyAPI
                         = (b1, Inr ())"
    by (simp add: submitReview_def reviewReadyAPI_deployment submitReview_rev_def
        employeeWitness_def initialChain_def sr Let_def)
  from C2_double_review[OF r1 b1 same sr, of "''again''" "''0xcd''"] d rp
  have 2: "submitReview employeeWitness sampleRatings ''again'' ''0xcd'' b1 = (b1, Inl DoubleReview)
       \<and> (\<exists>api3. submitReview employeeWitness sampleRatings ''again'' ''0xcd''
                     (perform (AdvanceReviewPeriod adminWitness) b1) = (api3, Inr ()))"
    by blast
  from a1 1 b1 2 show ?thesis by blast
qed

end
